theory Spec2Isabelle
  imports Complex_Main
begin

section \<open>Session booking and rating workflow of the folk-art platform\<close>

text \<open>
  The sessions router (the second module of \<^verbatim>\<open>routes/artists.js\<close>) together with the
  Session and Artist schemas. Each route handler is a function from the request (the
  authenticated caller, the route parameter, the body or query) and the two collections
  to a response and the collections afterwards. The handlers await database calls inside
  \<^verbatim>\<open>try { ... } catch\<close>; a call that rejects is named by the first argument of each
  handler and produces the 500 response of the catch block.
\<close>

subsection \<open>JavaScript values of a JSON body and their numeric comparison\<close>

text \<open>
  Numbers are exact rationals (the rounding of IEEE doubles is not part of the model).
  A body field is absent (\<open>JUndefined\<close>) or a JSON scalar; arrays and objects are left
  out.
\<close>

datatype jsnum = NaN | Fin rat | PosInfinity | NegInfinity

datatype jsval = JUndefined | JNull | JBool bool | JNumber rat | JString string

definition isStrWhiteSpace :: "char \<Rightarrow> bool" where
  "isStrWhiteSpace c = (of_char c \<in> {9::nat, 10, 11, 12, 13, 32})"

definition isDigit :: "char \<Rightarrow> bool" where
  "isDigit c = (48 \<le> (of_char c :: nat) \<and> (of_char c :: nat) \<le> 57)"

definition digitValue :: "char \<Rightarrow> nat" where
  "digitValue c =
     (let n = of_char c in
      if 48 \<le> n \<and> n \<le> 57 then n - 48
      else if 97 \<le> n \<and> n \<le> 102 then n - 87
      else if 65 \<le> n \<and> n \<le> 70 then n - 55
      else 0)"

definition isDigitOfRadix :: "nat \<Rightarrow> char \<Rightarrow> bool" where
  "isDigitOfRadix r c =
     (let n = (of_char c :: nat) in
      ((48 \<le> n \<and> n \<le> 57) \<or> (97 \<le> n \<and> n \<le> 102) \<or> (65 \<le> n \<and> n \<le> 70))
      \<and> digitValue c < r)"

definition digitsValue :: "nat \<Rightarrow> string \<Rightarrow> nat" where
  "digitsValue r ds = foldl (\<lambda>n c. r * n + digitValue c) 0 ds"

definition StrWhiteSpace_trim :: "string \<Rightarrow> string" where
  "StrWhiteSpace_trim s = rev (dropWhile isStrWhiteSpace (rev (dropWhile isStrWhiteSpace s)))"

text \<open>\<open>0x\<close>, \<open>0o\<close> and \<open>0b\<close> literals: a prefix and at least one digit of the radix.\<close>

definition NonDecimalIntegerLiteral :: "string \<Rightarrow> nat option" where
  "NonDecimalIntegerLiteral s =
     (case s of
        z # p # ds \<Rightarrow>
          (let r = (if p \<in> set ''xX'' then 16 else if p \<in> set ''oO'' then 8
                    else if p \<in> set ''bB'' then 2 else (0::nat))
           in if z = CHR ''0'' \<and> r \<noteq> 0 \<and> ds \<noteq> [] \<and> list_all (isDigitOfRadix r) ds
              then Some (digitsValue r ds) else None)
      | _ \<Rightarrow> None)"

text \<open>The exponent part after the \<open>e\<close>: an optional sign and at least one digit.\<close>

definition SignedInteger :: "string \<Rightarrow> int option" where
  "SignedInteger s =
     (let (neg, ds) = (case s of c # r \<Rightarrow> if c = CHR ''-'' then (True, r)
                                          else if c = CHR ''+'' then (False, r) else (False, s)
                       | [] \<Rightarrow> (False, s))
      in if ds \<noteq> [] \<and> list_all isDigit ds
         then Some (if neg then - int (digitsValue 10 ds) else int (digitsValue 10 ds))
         else None)"

definition pow10 :: "int \<Rightarrow> rat" where
  "pow10 e = (if 0 \<le> e then 10 ^ nat e else 1 / 10 ^ nat (- e))"

text \<open>
  Digits, an optional fraction and an optional exponent; at least one digit before or
  after the dot.
\<close>

definition StrUnsignedDecimalLiteral :: "string \<Rightarrow> jsnum" where
  "StrUnsignedDecimalLiteral s =
     (if s = ''Infinity'' then PosInfinity
      else
        let ip = takeWhile isDigit s;
            r1 = dropWhile isDigit s;
            (fp, r2) = (case r1 of c # r \<Rightarrow> if c = CHR ''.''
                                              then (takeWhile isDigit r, dropWhile isDigit r)
                                              else ([], r1)
                        | [] \<Rightarrow> ([], r1));
            m = of_nat (digitsValue 10 ip) + of_nat (digitsValue 10 fp) / 10 ^ length fp
        in if ip = [] \<and> fp = [] then NaN
           else (case r2 of
                   [] \<Rightarrow> Fin m
                 | c # r3 \<Rightarrow>
                     if c \<in> set ''eE''
                     then (case SignedInteger r3 of None \<Rightarrow> NaN | Some e \<Rightarrow> Fin (m * pow10 e))
                     else NaN))"

definition jsnum_negate :: "jsnum \<Rightarrow> jsnum" where
  "jsnum_negate n =
     (case n of NaN \<Rightarrow> NaN | Fin q \<Rightarrow> Fin (- q)
      | PosInfinity \<Rightarrow> NegInfinity | NegInfinity \<Rightarrow> PosInfinity)"

text \<open>StringToNumber: white space is trimmed, the empty string is 0, anything that
  is not a numeric literal is NaN.\<close>

definition StringToNumber :: "string \<Rightarrow> jsnum" where
  "StringToNumber s =
     (let t = StrWhiteSpace_trim s in
      case t of
        [] \<Rightarrow> Fin 0
      | c # r \<Rightarrow>
          (case NonDecimalIntegerLiteral t of
             Some n \<Rightarrow> Fin (of_nat n)
           | None \<Rightarrow>
               if c = CHR ''+'' then StrUnsignedDecimalLiteral r
               else if c = CHR ''-'' then jsnum_negate (StrUnsignedDecimalLiteral r)
               else StrUnsignedDecimalLiteral t))"

fun ToNumber :: "jsval \<Rightarrow> jsnum" where
  "ToNumber JUndefined = NaN"
| "ToNumber JNull = Fin 0"
| "ToNumber (JBool b) = Fin (if b then 1 else 0)"
| "ToNumber (JNumber q) = Fin q"
| "ToNumber (JString s) = StringToNumber s"

text \<open>\<open>x < y\<close> on numbers: false as soon as one side is NaN.\<close>

fun js_lt :: "jsnum \<Rightarrow> jsnum \<Rightarrow> bool" where
  "js_lt NaN _ = False"
| "js_lt _ NaN = False"
| "js_lt (Fin a) (Fin b) = (a < b)"
| "js_lt (Fin _) PosInfinity = True"
| "js_lt (Fin _) NegInfinity = False"
| "js_lt PosInfinity _ = False"
| "js_lt NegInfinity NegInfinity = False"
| "js_lt NegInfinity _ = True"

text \<open>\<open>v < n\<close> and \<open>v > n\<close> for a body value against a number literal.\<close>

definition js_less :: "jsval \<Rightarrow> rat \<Rightarrow> bool" where
  "js_less v n = js_lt (ToNumber v) (Fin n)"

definition js_greater :: "jsval \<Rightarrow> rat \<Rightarrow> bool" where
  "js_greater v n = js_lt (Fin n) (ToNumber v)"

text \<open>\<open>Math.round\<close>: the nearest integer, a tie going up.\<close>

definition Math_round :: "rat \<Rightarrow> rat" where
  "Math_round x = of_int \<lfloor>x + 1 / 2\<rfloor>"

subsection \<open>Documents, collections, callers, responses\<close>

type_synonym oid = nat

text \<open>A \<^verbatim>\<open>Date\<close> is its time value, milliseconds since the epoch.\<close>

type_synonym date = int

text \<open>\<^verbatim>\<open>new Date(t)\<close>: a time value beyond the range of \<^verbatim>\<open>Date\<close> gives an invalid date.\<close>

definition newDate :: "int \<Rightarrow> date option" where
  "newDate t = (if \<bar>t\<bar> \<le> 8640000000000000 then Some t else None)"

record rating =
  score :: "rat option"
  review :: "string option"
  ratedAt :: "date option"

record location =
  address :: "string option"
  city :: "string option"
  state :: "string option"
  latitude :: "rat option"
  longitude :: "rat option"

text \<open>The Session schema (\<^verbatim>\<open>models/Session.js\<close>); \<open>s_id\<close> is \<^verbatim>\<open>_id\<close>.\<close>

record session =
  s_id :: oid
  user :: oid
  artist :: oid
  sessionType :: string
  title :: string
  description :: "string option"
  scheduledDate :: date
  duration :: int
  format :: string
  location :: "location option"
  meetingLink :: "string option"
  pricing_amount :: rat
  pricing_currency :: string
  status :: string
  paymentStatus :: string
  paymentId :: "string option"
  materials :: "string list"
  prerequisites :: "string list"
  maxParticipants :: nat
  currentParticipants :: nat
  rating :: "rating option"
  createdAt :: date
  updatedAt :: date

text \<open>The fields of the Artist schema that the session routes read or write.\<close>

record artist_profile =
  artist_id :: oid
  artist_user :: oid
  pricing_sessionRate :: rat
  ratings_average :: rat
  ratings_count :: nat
  isActive :: bool

record store =
  artists :: "artist_profile list"
  sessions :: "session list"

text \<open>\<^verbatim>\<open>req.user\<close>, as the \<^verbatim>\<open>protect\<close> middleware leaves it.\<close>

record caller =
  user_id :: oid
  user_role :: string

datatype 'a response = Failure nat string | Success nat string 'a

text \<open>The awaited database calls of the session routes; \<open>Session_populate\<close> is the
  second \<^verbatim>\<open>Session.findById(...).populate(...)\<close> of a handler.\<close>

datatype dbcall =
    Artist_findOne | Artist_findById | Artist_save
  | Session_findOne | Session_findById | Session_find | Session_countDocuments
  | Session_create | Session_save | Session_populate

definition ServerError :: "'a response" where
  "ServerError = Failure 500 ''Server error''"

definition ArtistNotFound :: "'a response" where
  "ArtistNotFound = Failure 404 ''Artist not found''"

definition SessionNotFound :: "'a response" where
  "SessionNotFound = Failure 404 ''Session not found''"

definition Conflict :: "'a response" where
  "Conflict = Failure 400 ''Artist is not available at the requested time''"

definition InvalidStatus :: "'a response" where
  "InvalidStatus = Failure 400 ''Invalid status''"

definition ForbiddenUpdate :: "'a response" where
  "ForbiddenUpdate = Failure 403 ''Not authorized to update this session''"

definition ForbiddenRate :: "'a response" where
  "ForbiddenRate = Failure 403 ''Not authorized to rate this session''"

definition InvalidArgument :: "'a response" where
  "InvalidArgument = Failure 400 ''Rating must be between 1 and 5''"

definition InvalidState :: "'a response" where
  "InvalidState = Failure 400 ''Session must be completed before rating''"

subsection \<open>Database calls\<close>

definition findById_artist :: "store \<Rightarrow> oid \<Rightarrow> artist_profile option" where
  "findById_artist st i = find (\<lambda>a. artist_id a = i) (artists st)"

text \<open>\<^verbatim>\<open>Artist.findOne({ user: id })\<close>\<close>

definition findOne_artist :: "store \<Rightarrow> oid \<Rightarrow> artist_profile option" where
  "findOne_artist st u = find (\<lambda>a. artist_user a = u) (artists st)"

definition findById_session :: "store \<Rightarrow> oid \<Rightarrow> session option" where
  "findById_session st i = find (\<lambda>s. s_id s = i) (sessions st)"

text \<open>\<^verbatim>\<open>session.save()\<close>: the pre-save hook stamps \<open>updatedAt\<close>, then the document
  with this \<^verbatim>\<open>_id\<close> is replaced.\<close>

definition save_session :: "date \<Rightarrow> store \<Rightarrow> session \<Rightarrow> store" where
  "save_session now st s =
     st\<lparr>sessions := map (\<lambda>x. if s_id x = s_id s then s\<lparr>updatedAt := now\<rparr> else x) (sessions st)\<rparr>"

definition save_artist :: "store \<Rightarrow> artist_profile \<Rightarrow> store" where
  "save_artist st a =
     st\<lparr>artists := map (\<lambda>x. if artist_id x = artist_id a then a else x) (artists st)\<rparr>"

text \<open>A new \<^verbatim>\<open>_id\<close>: one that no document of the collection carries.\<close>

definition fresh_oid :: "oid list \<Rightarrow> oid" where
  "fresh_oid ids = Suc (fold max ids 0)"

subsection \<open>POST /api/sessions: book a session\<close>

text \<open>
  The request body. The handler destructures the first ten fields; a client may send
  the last three as well. \<open>artistId\<close> is a well-formed \<^verbatim>\<open>ObjectId\<close>.
  \<open>req_scheduledDate\<close> is the time value that \<^verbatim>\<open>new Date(scheduledDate)\<close> reads,
  \<open>None\<close> when the field is absent or no date; \<open>req_duration\<close> is in whole minutes.
\<close>

record booking =
  artistId :: oid
  req_sessionType :: "string option"
  req_title :: "string option"
  req_description :: "string option"
  req_scheduledDate :: "int option"
  req_duration :: "int option"
  req_format :: "string option"
  req_location :: "location option"
  req_pricing_amount :: "rat option"
  req_pricing_currency :: "string option"
  req_status :: "string option"
  req_paymentStatus :: "string option"
  req_rating :: "rating option"

text \<open>The two bounds of the availability query:
  \<^verbatim>\<open>new Date(scheduledDate)\<close> and
  \<^verbatim>\<open>new Date(new Date(scheduledDate).getTime() + duration * 60000)\<close>.\<close>

definition window_start :: "booking \<Rightarrow> date option" where
  "window_start body = (case req_scheduledDate body of None \<Rightarrow> None | Some t \<Rightarrow> newDate t)"

definition window_end :: "booking \<Rightarrow> date option" where
  "window_end body =
     (case window_start body of
        None \<Rightarrow> None
      | Some t \<Rightarrow> (case req_duration body of None \<Rightarrow> None | Some d \<Rightarrow> newDate (t + d * 60000)))"

text \<open>The filter of \<^verbatim>\<open>Session.findOne\<close> in the availability check.\<close>

definition occupies :: "oid \<Rightarrow> date \<Rightarrow> date \<Rightarrow> session \<Rightarrow> bool" where
  "occupies aid lo hi s =
     (artist s = aid \<and> lo \<le> scheduledDate s \<and> scheduledDate s < hi
      \<and> status s \<in> set [''pending'', ''confirmed''])"

text \<open>The validators of the Session schema on the fields of a new document.\<close>

definition valid_new_session :: "booking \<Rightarrow> bool" where
  "valid_new_session body =
     ((case req_sessionType body of
         None \<Rightarrow> False
       | Some t \<Rightarrow> t \<in> set [''lesson'', ''workshop'', ''consultation'', ''performance''])
      \<and> (case req_title body of None \<Rightarrow> False | Some t \<Rightarrow> t \<noteq> [])
      \<and> (case req_description body of None \<Rightarrow> True | Some d \<Rightarrow> length d \<le> 500)
      \<and> (case req_format body of
            None \<Rightarrow> False
          | Some f \<Rightarrow> f \<in> set [''online'', ''in-person'', ''hybrid''])
      \<and> req_pricing_amount body \<noteq> None)"

text \<open>The document \<^verbatim>\<open>Session.create\<close> builds: the ten fields of the handler, the
  schema's defaults for the rest.\<close>

definition new_session :: "oid \<Rightarrow> date \<Rightarrow> caller \<Rightarrow> booking \<Rightarrow> date \<Rightarrow> int \<Rightarrow> session" where
  "new_session i now usr body t d =
     \<lparr>s_id = i,
      user = user_id usr,
      artist = artistId body,
      sessionType = (case req_sessionType body of Some x \<Rightarrow> x | None \<Rightarrow> []),
      title = (case req_title body of Some x \<Rightarrow> x | None \<Rightarrow> []),
      description = req_description body,
      scheduledDate = t,
      duration = d,
      format = (case req_format body of Some x \<Rightarrow> x | None \<Rightarrow> []),
      location = req_location body,
      meetingLink = None,
      pricing_amount = (case req_pricing_amount body of Some x \<Rightarrow> x | None \<Rightarrow> 0),
      pricing_currency = (case req_pricing_currency body of Some c \<Rightarrow> c | None \<Rightarrow> ''INR''),
      status = ''pending'',
      paymentStatus = ''pending'',
      paymentId = None,
      materials = [],
      prerequisites = [],
      maxParticipants = 1,
      currentParticipants = 1,
      rating = None,
      createdAt = now,
      updatedAt = now\<rparr>"

text \<open>
  The handler reads the artist, looks for one pending or confirmed session of the
  artist that starts inside the requested window, creates the document and reads it
  back populated. An invalid date among the bounds is a cast error of the query, and a
  document that fails the validators is rejected by \<^verbatim>\<open>Session.create\<close>: both end in
  the catch block. The answer carries the stored session; the expansion of its user
  and artist into name and image is left out.
\<close>

definition bookSession ::
  "dbcall option \<Rightarrow> date \<Rightarrow> store \<Rightarrow> caller \<Rightarrow> booking \<Rightarrow> session option response \<times> store"
where
  "bookSession flt now st usr body =
     (if flt = Some Artist_findById then (ServerError, st)
      else case findById_artist st (artistId body) of
        None \<Rightarrow> (ArtistNotFound, st)
      | Some a \<Rightarrow>
          (case (window_start body, window_end body, req_duration body) of
             (Some lo, Some hi, Some d) \<Rightarrow>
               if flt = Some Session_findOne then (ServerError, st)
               else (case find (occupies (artistId body) lo hi) (sessions st) of
                  Some existingSession \<Rightarrow> (Conflict, st)
                | None \<Rightarrow>
                    if flt = Some Session_create \<or> \<not> valid_new_session body
                    then (ServerError, st)
                    else
                      let doc = new_session (fresh_oid (map s_id (sessions st))) now usr body lo d;
                          st1 = st\<lparr>sessions := sessions st @ [doc]\<rparr>
                      in if flt = Some Session_populate then (ServerError, st1)
                         else (Success 201 ''Session booked successfully''
                                 (findById_session st1 (s_id doc)), st1))
           | _ \<Rightarrow> (ServerError, st)))"

subsection \<open>PUT /api/sessions/:id/status: update the status\<close>

text \<open>\<open>new_status\<close> is \<^verbatim>\<open>req.body.status\<close>, \<open>None\<close> when it is absent or no string;
  \<open>sid\<close> is the route parameter, a well-formed \<^verbatim>\<open>ObjectId\<close>.\<close>

definition validStatuses :: "string list" where
  "validStatuses = [''pending'', ''confirmed'', ''completed'', ''cancelled'', ''rescheduled'']"

definition updateSessionStatus ::
  "dbcall option \<Rightarrow> date \<Rightarrow> store \<Rightarrow> caller \<Rightarrow> oid \<Rightarrow> string option
     \<Rightarrow> session option response \<times> store"
where
  "updateSessionStatus flt now st usr sid new_status =
     (case new_status of
        None \<Rightarrow> (InvalidStatus, st)
      | Some v \<Rightarrow>
          if v \<notin> set validStatuses then (InvalidStatus, st)
          else if flt = Some Session_findById then (ServerError, st)
          else (case findById_session st sid of
             None \<Rightarrow> (SessionNotFound, st)
           | Some s \<Rightarrow>
               if flt = Some Artist_findOne then (ServerError, st)
               else
                 let isOwner = (user s = user_id usr);
                     isArtist = (case findOne_artist st (user_id usr) of
                                   None \<Rightarrow> False
                                 | Some a \<Rightarrow> artist s = artist_id a);
                     isAdmin = (user_role usr = ''admin'')
                 in if \<not> isOwner \<and> \<not> isArtist \<and> \<not> isAdmin then (ForbiddenUpdate, st)
                    else if flt = Some Session_save then (ServerError, st)
                    else
                      let st1 = save_session now st (s\<lparr>status := v\<rparr>)
                      in if flt = Some Session_populate then (ServerError, st1)
                         else (Success 200 ''Session status updated successfully''
                                 (findById_session st1 (s_id s)), st1)))"

subsection \<open>PUT /api/sessions/:id/rate: rate a session\<close>

record rate_body =
  req_score :: jsval
  req_review :: "string option"

text \<open>
  Assigning \<^verbatim>\<open>rating.score\<close> casts the value to the schema's \<^verbatim>\<open>Number\<close>: absent
  and null stay without a value, the empty string becomes null, a string or boolean
  goes through \<^verbatim>\<open>Number(...)\<close>, and NaN is a cast error (the outer \<open>None\<close>), which
  \<^verbatim>\<open>save()\<close> raises. Null and the empty string never reach the assignment in the
  handler below: they compare as 0 and the range guard rejects them.
\<close>

definition castNumber :: "jsval \<Rightarrow> jsnum option option" where
  "castNumber v =
     (case v of
        JUndefined \<Rightarrow> Some None
      | JNull \<Rightarrow> Some None
      | JString s \<Rightarrow>
          if s = [] then Some None
          else (case StringToNumber s of NaN \<Rightarrow> None | n \<Rightarrow> Some (Some n))
      | _ \<Rightarrow> Some (Some (ToNumber v)))"

text \<open>The cast followed by the validators \<^verbatim>\<open>min: 1, max: 5\<close> of \<^verbatim>\<open>rating.score\<close>:
  \<open>None\<close> when \<^verbatim>\<open>save()\<close> rejects, otherwise the score that is stored, if any.\<close>

definition validate_score :: "jsval \<Rightarrow> rat option option" where
  "validate_score v =
     (case castNumber v of
        None \<Rightarrow> None
      | Some None \<Rightarrow> Some None
      | Some (Some n) \<Rightarrow>
          (case n of Fin q \<Rightarrow> if 1 \<le> q \<and> q \<le> 5 then Some (Some q) else None
           | _ \<Rightarrow> None))"

text \<open>\<^verbatim>\<open>'rating.score': { $exists: true }\<close>\<close>

definition has_score :: "session \<Rightarrow> bool" where
  "has_score s = (case rating s of None \<Rightarrow> False | Some r \<Rightarrow> score r \<noteq> None)"

text \<open>\<^verbatim>\<open>s.rating.score\<close> of a session that the filter above selected.\<close>

definition rating_score :: "session \<Rightarrow> rat" where
  "rating_score s =
     (case rating s of None \<Rightarrow> 0 | Some r \<Rightarrow> (case score r of None \<Rightarrow> 0 | Some q \<Rightarrow> q))"

text \<open>\<^verbatim>\<open>Session.find({ artist: ..., 'rating.score': { $exists: true } })\<close>\<close>

definition find_rated :: "store \<Rightarrow> oid \<Rightarrow> session list" where
  "find_rated st aid = filter (\<lambda>s. artist s = aid \<and> has_score s) (sessions st)"

text \<open>\<^verbatim>\<open>sessions.reduce((sum, s) => sum + s.rating.score, 0)\<close>\<close>

definition sum_scores :: "session list \<Rightarrow> rat" where
  "sum_scores ss = foldl (\<lambda>sum s. sum + rating_score s) 0 ss"

text \<open>
  After the four checks the handler writes the rating, saves the session, reads the
  artist and the artist's rated sessions, and saves the recomputed aggregate. Three
  failures are raised by the code itself after the session is saved: the artist is
  null, the average of no sessions is NaN (no \<^verbatim>\<open>Number\<close>), and an average outside
  the validators \<^verbatim>\<open>min: 0, max: 5\<close> of \<^verbatim>\<open>ratings.average\<close>.
\<close>

definition rateSession ::
  "dbcall option \<Rightarrow> date \<Rightarrow> store \<Rightarrow> caller \<Rightarrow> oid \<Rightarrow> rate_body \<Rightarrow> session response \<times> store"
where
  "rateSession flt now st usr sid body =
     (if js_less (req_score body) 1 \<or> js_greater (req_score body) 5 then (InvalidArgument, st)
      else if flt = Some Session_findById then (ServerError, st)
      else case findById_session st sid of
        None \<Rightarrow> (SessionNotFound, st)
      | Some s \<Rightarrow>
          if user s \<noteq> user_id usr then (ForbiddenRate, st)
          else if status s \<noteq> ''completed'' then (InvalidState, st)
          else (case validate_score (req_score body) of
             None \<Rightarrow> (ServerError, st)
           | Some sc \<Rightarrow>
               if flt = Some Session_save then (ServerError, st)
               else
                 let s1 = s\<lparr>rating := Some \<lparr>score = sc, review = req_review body,
                                             ratedAt = Some now\<rparr>,
                            updatedAt := now\<rparr>;
                     st1 = save_session now st s1
                 in if flt = Some Artist_findById then (ServerError, st1)
                    else if flt = Some Session_find then (ServerError, st1)
                    else
                      let rated = find_rated st1 (artist s1);
                          totalRatings = length rated
                      in (case findById_artist st1 (artist s1) of
                            None \<Rightarrow> (ServerError, st1)
                          | Some a \<Rightarrow>
                              if totalRatings = 0 then (ServerError, st1)
                              else
                                let averageRating = sum_scores rated / of_nat totalRatings;
                                    average = Math_round (averageRating * 10) / 10
                                in if average < 0 \<or> 5 < average \<or> flt = Some Artist_save
                                   then (ServerError, st1)
                                   else (Success 200 ''Session rated successfully'' s1,
                                         save_artist st1
                                           (a\<lparr>ratings_average := average,
                                              ratings_count := totalRatings\<rparr>)))))"

subsection \<open>GET /api/sessions: the caller's sessions\<close>

text \<open>The query string: \<open>q_page\<close> and \<open>q_limit\<close> are the numbers that the strings
  convert to in \<^verbatim>\<open>limit * 1\<close> and \<^verbatim>\<open>(page - 1) * limit\<close>.\<close>

record list_query =
  q_status :: "string option"
  q_upcoming :: "string option"
  q_page :: "nat option"
  q_limit :: "nat option"

text \<open>The filter object \<^verbatim>\<open>query\<close>; a key that is not set is \<open>None\<close>.\<close>

record session_filter =
  f_artist :: "oid option"
  f_user :: "oid option"
  f_status :: "string option"
  f_scheduledDate_gte :: "date option"

definition matches :: "session_filter \<Rightarrow> session \<Rightarrow> bool" where
  "matches q s =
     ((case f_artist q of None \<Rightarrow> True | Some a \<Rightarrow> artist s = a)
      \<and> (case f_user q of None \<Rightarrow> True | Some u \<Rightarrow> user s = u)
      \<and> (case f_status q of None \<Rightarrow> True | Some v \<Rightarrow> status s = v)
      \<and> (case f_scheduledDate_gte q of None \<Rightarrow> True | Some t \<Rightarrow> t \<le> scheduledDate s))"

record session_page =
  page_count :: nat
  page_total :: nat
  page_totalPages :: "nat option"
  page_currentPage :: nat
  page_data :: "session list"

text \<open>The filter as the handler builds it, before any database call on sessions.\<close>

definition build_query :: "date \<Rightarrow> store \<Rightarrow> caller \<Rightarrow> list_query \<Rightarrow> session_filter" where
  "build_query now st usr q =
     (let q0 = \<lparr>f_artist = None, f_user = None, f_status = None, f_scheduledDate_gte = None\<rparr>;
          q1 = (if user_role usr = ''artist''
                then (case findOne_artist st (user_id usr) of
                        Some a \<Rightarrow> q0\<lparr>f_artist := Some (artist_id a)\<rparr>
                      | None \<Rightarrow> q0)
                else q0\<lparr>f_user := Some (user_id usr)\<rparr>);
          q2 = (case q_status q of
                  Some v \<Rightarrow> if v \<noteq> [] then q1\<lparr>f_status := Some v\<rparr> else q1
                | None \<Rightarrow> q1)
      in if q_upcoming q = Some ''true'' then q2\<lparr>f_scheduledDate_gte := Some now\<rparr> else q2)"

text \<open>
  \<^verbatim>\<open>find(query).sort({ scheduledDate: 1 }).limit(limit * 1).skip((page - 1) * limit)\<close>:
  a limit of 0 is no limit, a negative skip is rejected by the database. Documents with
  equal dates keep the order of the collection. The answer has no message;
  \<open>page_totalPages\<close> is \<^verbatim>\<open>Math.ceil(total / limit)\<close>, which is no number for the JSON
  answer when the limit is 0.
\<close>

definition listSessions ::
  "dbcall option \<Rightarrow> date \<Rightarrow> store \<Rightarrow> caller \<Rightarrow> list_query \<Rightarrow> session_page response \<times> store"
where
  "listSessions flt now st usr q =
     (let page = (case q_page q of None \<Rightarrow> 1 | Some p \<Rightarrow> p);
          limit = (case q_limit q of None \<Rightarrow> 10 | Some l \<Rightarrow> l);
          query = build_query now st usr q;
          found = sort_key scheduledDate (filter (matches query) (sessions st));
          skipped = drop ((page - 1) * limit) found;
          data = (if limit = 0 then skipped else take limit skipped);
          total = length (filter (matches query) (sessions st))
      in if (user_role usr = ''artist'' \<and> flt = Some Artist_findOne)
            \<or> flt = Some Session_find \<or> (page = 0 \<and> 0 < limit)
            \<or> flt = Some Session_countDocuments
         then (ServerError, st)
         else (Success 200 []
                 \<lparr>page_count = length data,
                  page_total = total,
                  page_totalPages = (if limit = 0 then None
                                     else Some ((total + limit - 1) div limit)),
                  page_currentPage = page,
                  page_data = data\<rparr>, st))"

subsection \<open>Properties of the specification\<close>

text \<open>
  The interval overlap of the specification, between a stored session and a requested
  window \<open>[lo, hi)\<close>: the session starts before the window ends and ends after the
  window starts.
\<close>

definition overlaps :: "session \<Rightarrow> date \<Rightarrow> date \<Rightarrow> bool" where
  "overlaps s lo hi = (scheduledDate s < hi \<and> lo < scheduledDate s + duration s * 60000)"

text \<open>The scores of the sessions that reference an artist and carry a rating score.\<close>

definition rated_scores :: "store \<Rightarrow> oid \<Rightarrow> rat list" where
  "rated_scores st aid =
     List.map_filter (\<lambda>s. if artist s = aid then Option.bind (rating s) score else None)
       (sessions st)"

text \<open>The mean of a population; the aggregate of an artist without ratings keeps the
  schema's default 0.\<close>

definition mean :: "rat list \<Rightarrow> rat" where
  "mean xs = (if xs = [] then 0 else sum_list xs / of_nat (length xs))"

text \<open>Rounding to one decimal place: the nearest tenth, a tie going up.\<close>

definition round_1dp :: "rat \<Rightarrow> rat" where
  "round_1dp x = of_int \<lfloor>x * 10 + 1 / 2\<rfloor> / 10"

text \<open>The aggregate invariant of the artist profiles.\<close>

definition ratings_consistent :: "store \<Rightarrow> bool" where
  "ratings_consistent st =
     list_all (\<lambda>a. ratings_count a = length (rated_scores st (artist_id a))
                  \<and> ratings_average a = round_1dp (mean (rated_scores st (artist_id a))))
       (artists st)"

text \<open>
  What the routes maintain of the collections: \<^verbatim>\<open>_id\<close>s are unique, a session's
  artist exists (booking checks it and no route deletes a profile), and a stored score
  passed the validators of \<^verbatim>\<open>rating.score\<close>.
\<close>

definition store_ok :: "store \<Rightarrow> bool" where
  "store_ok st =
     (distinct (map s_id (sessions st)) \<and> distinct (map artist_id (artists st))
      \<and> list_all (\<lambda>s. findById_artist st (artist s) \<noteq> None
                       \<and> (case Option.bind (rating s) score of
                             None \<Rightarrow> True
                           | Some q \<Rightarrow> 1 \<le> q \<and> q \<le> 5))
           (sessions st))"



subsection \<open>Example data\<close>

text \<open>Artist X (profile 1 of user 10, session rate 500), a second artist, a customer
  (user 20), another customer, an admin, and a user with role artist but no profile.\<close>

definition artistX :: artist_profile where
  "artistX = \<lparr>artist_id = 1, artist_user = 10, pricing_sessionRate = 500,
              ratings_average = 0, ratings_count = 0, isActive = True\<rparr>"

definition artistY :: artist_profile where
  "artistY = \<lparr>artist_id = 2, artist_user = 11, pricing_sessionRate = 800,
              ratings_average = 0, ratings_count = 0, isActive = True\<rparr>"

definition customer :: caller where
  "customer = \<lparr>user_id = 20, user_role = ''user''\<rparr>"

definition other_customer :: caller where
  "other_customer = \<lparr>user_id = 21, user_role = ''user''\<rparr>"

definition owning_artist :: caller where
  "owning_artist = \<lparr>user_id = 10, user_role = ''artist''\<rparr>"

definition admin :: caller where
  "admin = \<lparr>user_id = 30, user_role = ''admin''\<rparr>"

definition artist_without_profile :: caller where
  "artist_without_profile = \<lparr>user_id = 40, user_role = ''artist''\<rparr>"

text \<open>A lesson of customer \<open>u\<close> with artist \<open>a\<close>, starting at \<open>t\<close> for \<open>d\<close> minutes.\<close>

definition lesson :: "oid \<Rightarrow> oid \<Rightarrow> oid \<Rightarrow> date \<Rightarrow> int \<Rightarrow> string \<Rightarrow> rating option \<Rightarrow> session" where
  "lesson i u a t d st r =
     \<lparr>s_id = i, user = u, artist = a, sessionType = ''lesson'', title = ''Warli'',
      description = None, scheduledDate = t, duration = d, format = ''online'',
      location = None, meetingLink = None, pricing_amount = 500,
      pricing_currency = ''INR'', status = st, paymentStatus = ''paid'',
      paymentId = None, materials = [], prerequisites = [], maxParticipants = 1,
      currentParticipants = 1, rating = r, createdAt = 0, updatedAt = 0\<rparr>"

text \<open>The body of a booking with artist X at \<open>t\<close> for \<open>d\<close> minutes; the client also
  sends a status, a payment status and a rating.\<close>

definition booking_at :: "int \<Rightarrow> int \<Rightarrow> booking" where
  "booking_at t d =
     \<lparr>artistId = 1, req_sessionType = Some ''lesson'', req_title = Some ''Warli'',
      req_description = None, req_scheduledDate = Some t, req_duration = Some d,
      req_format = Some ''online'', req_location = None, req_pricing_amount = Some 500,
      req_pricing_currency = None, req_status = Some ''completed'',
      req_paymentStatus = Some ''paid'',
      req_rating = Some \<lparr>score = Some 5, review = None, ratedAt = None\<rparr>\<rparr>"

text \<open>2024-01-10 at 10:00, 10:30 and 11:00 UTC.\<close>

definition t_1000 :: date where "t_1000 = 1704880800000"
definition t_1030 :: date where "t_1030 = 1704882600000"
definition t_1100 :: date where "t_1100 = 1704884400000"

definition no_sessions :: store where
  "no_sessions = \<lparr>artists = [artistX, artistY], sessions = []\<rparr>"

text \<open>Artist X is booked at 10:00 for 60 minutes, the session is pending.\<close>

definition booked_1000 :: store where
  "booked_1000 =
     \<lparr>artists = [artistX, artistY],
      sessions = [lesson 1 20 1 t_1000 60 ''pending'' None]\<rparr>"

text \<open>Two completed sessions of artist X and one of artist Y, none rated yet.\<close>

definition completed_unrated :: store where
  "completed_unrated =
     \<lparr>artists = [artistX, artistY],
      sessions = [lesson 1 20 1 t_1000 60 ''completed'' None,
                  lesson 2 21 1 t_1100 30 ''completed'' None,
                  lesson 3 21 2 t_1030 60 ''completed'' None]\<rparr>"

text \<open>Session 1 of artist X carries the rating 4, and the aggregate says so.\<close>

definition rated_once :: store where
  "rated_once =
     \<lparr>artists = [artistX\<lparr>ratings_average := 4, ratings_count := 1\<rparr>, artistY],
      sessions = [lesson 1 20 1 t_1000 60 ''completed''
                    (Some \<lparr>score = Some 4, review = Some ''good'', ratedAt = Some 5\<rparr>),
                  lesson 2 21 1 t_1100 30 ''completed'' None]\<rparr>"

text \<open>Both sessions of artist X are rated, 4 and 5.\<close>

definition rated_twice :: store where
  "rated_twice =
     \<lparr>artists = [artistX\<lparr>ratings_average := 9 / 2, ratings_count := 2\<rparr>, artistY],
      sessions = [lesson 1 20 1 t_1000 60 ''completed''
                    (Some \<lparr>score = Some 4, review = Some ''good'', ratedAt = Some 100\<rparr>)
                    \<lparr>updatedAt := 100\<rparr>,
                  lesson 2 21 1 t_1100 30 ''completed''
                    (Some \<lparr>score = Some 5, review = None, ratedAt = Some 101\<rparr>)
                    \<lparr>updatedAt := 101\<rparr>,
                  lesson 3 21 2 t_1030 60 ''completed'' None]\<rparr>"

section \<open>Verification\<close>

subsection \<open>Lists, identifiers and evaluation rules\<close>

lemma find_app:
  "find P (xs @ ys) = (case find P xs of None \<Rightarrow> find P ys | Some x \<Rightarrow> Some x)"
  by (induction xs) auto

lemma fold_max_ge: "a \<le> fold max ids (a::nat) \<and> (\<forall>x\<in>set ids. x \<le> fold max ids a)"
proof (induction ids arbitrary: a)
  case Nil
  show ?case by simp
next
  case (Cons i ids)
  have "max i a \<le> fold max ids (max i a)" using Cons.IH by blast
  moreover have "\<forall>x\<in>set ids. x \<le> fold max ids (max i a)" using Cons.IH by blast
  ultimately show ?case by auto
qed

lemma fresh_oid_notin: "fresh_oid ids \<notin> set ids"
proof
  assume "fresh_oid ids \<in> set ids"
  then have "fresh_oid ids \<le> fold max ids 0" using fold_max_ge by blast
  then show False by (simp add: fresh_oid_def)
qed

lemma find_append_fresh:
  assumes "s_id doc \<notin> set (map s_id ss)"
  shows "find (\<lambda>s. s_id s = s_id doc) (ss @ [doc]) = Some doc"
proof -
  have "find (\<lambda>s. s_id s = s_id doc) ss = None"
    unfolding find_None_iff using assms by (metis image_eqI set_map)
  then show ?thesis by (simp add: find_app)
qed

lemma s_id_new_session: "s_id (new_session i now usr body t d) = i"
  by (simp add: new_session_def)

lemmas ex_defs = artistX_def artistY_def customer_def other_customer_def owning_artist_def
  admin_def artist_without_profile_def lesson_def booking_at_def t_1000_def t_1030_def
  t_1100_def no_sessions_def booked_1000_def completed_unrated_def rated_once_def rated_twice_def

lemmas book_defs = bookSession_def Let_def findById_artist_def window_start_def
  window_end_def newDate_def valid_new_session_def fresh_oid_def findById_session_def
  new_session_def occupies_def

subsection \<open>Booking\<close>

text \<open>The first booking of the scenario: artist X at 10:00 for 60 minutes.\<close>

lemma book_first:
  "bookSession None 7 no_sessions customer (booking_at t_1000 60) =
     (Success 201 ''Session booked successfully''
        (Some (lesson 1 20 1 t_1000 60 ''pending'' None
                 \<lparr>paymentStatus := ''pending'', createdAt := 7, updatedAt := 7\<rparr>)),
      no_sessions\<lparr>sessions :=
        [lesson 1 20 1 t_1000 60 ''pending'' None
           \<lparr>paymentStatus := ''pending'', createdAt := 7, updatedAt := 7\<rparr>]\<rparr>)"
  by (simp add: book_defs ex_defs)

text \<open>
  C3. Whenever booking answers with success, the answer carries the created session,
  that session is the one document appended to the collection, and its status is
  pending, its payment status is pending and it has no rating, whatever the body held
  (the body of the model can carry a status, a payment status and a rating).
\<close>

theorem bookSession_creates_pending:
  assumes "bookSession flt now st usr body = (Success c m d, st')"
  shows "\<exists>s. d = Some s \<and> sessions st' = sessions st @ [s] \<and> artists st' = artists st
             \<and> status s = ''pending'' \<and> paymentStatus s = ''pending'' \<and> rating s = None"
proof -
  let ?i = "fresh_oid (map s_id (sessions st))"
  obtain lo dd where
    resp: "d = findById_session
                 (st\<lparr>sessions := sessions st @ [new_session ?i now usr body lo dd]\<rparr>) ?i"
    and st': "st' = st\<lparr>sessions := sessions st @ [new_session ?i now usr body lo dd]\<rparr>"
    using assms
    by (auto simp: bookSession_def Let_def s_id_new_session ServerError_def
        ArtistNotFound_def Conflict_def split: if_splits option.splits)
  let ?doc = "new_session ?i now usr body lo dd"
  have "s_id ?doc \<notin> set (map s_id (sessions st))"
    using fresh_oid_notin[of "map s_id (sessions st)"] by (simp add: s_id_new_session)
  then have "find (\<lambda>s. s_id s = s_id ?doc) (sessions st @ [?doc]) = Some ?doc"
    by (rule find_append_fresh)
  then have "d = Some ?doc"
    using resp by (simp add: findById_session_def s_id_new_session)
  moreover have "status ?doc = ''pending'' \<and> paymentStatus ?doc = ''pending''
                 \<and> rating ?doc = None"
    by (simp add: new_session_def)
  ultimately show ?thesis using st' by simp
qed

text \<open>The body of the first booking asks for status completed, payment status paid
  and a rating of 5; the created session has none of them.\<close>

theorem bookSession_creates_pending_witness:
  "bookSession None 7 no_sessions customer (booking_at t_1000 60) =
     (Success 201 ''Session booked successfully''
        (Some (lesson 1 20 1 t_1000 60 ''pending'' None
                 \<lparr>paymentStatus := ''pending'', createdAt := 7, updatedAt := 7\<rparr>)),
      no_sessions\<lparr>sessions :=
        [lesson 1 20 1 t_1000 60 ''pending'' None
           \<lparr>paymentStatus := ''pending'', createdAt := 7, updatedAt := 7\<rparr>]\<rparr>)
   \<and> req_status (booking_at t_1000 60) = Some ''completed''
   \<and> req_paymentStatus (booking_at t_1000 60) = Some ''paid''
   \<and> req_rating (booking_at t_1000 60) \<noteq> None
   \<and> (\<exists>s. Some (lesson 1 20 1 t_1000 60 ''pending'' None
                   \<lparr>paymentStatus := ''pending'', createdAt := 7, updatedAt := 7\<rparr>) = Some s
         \<and> status s = ''pending'' \<and> paymentStatus s = ''pending'' \<and> rating s = None)"
proof -
  note b = book_first
  from bookSession_creates_pending[OF b] show ?thesis
    using b by (simp add: booking_at_def)
qed

text \<open>
  C1. Artist X has a pending session at 10:00 for 60 minutes. A request for 10:30 for
  60 minutes overlaps it (the stored session ends at 11:00), and yet the handler books
  it: the availability query only looks for a session that starts inside the requested
  window, and 10:00 is before 10:30. The claim asks for Conflict here.
\<close>

theorem bookSession_overlap_accepted:
  "overlaps (lesson 1 20 1 t_1000 60 ''pending'' None) t_1030 (t_1030 + 60 * 60000)
   \<and> findById_session booked_1000 1 = Some (lesson 1 20 1 t_1000 60 ''pending'' None)
   \<and> fst (bookSession None 8 booked_1000 customer (booking_at t_1030 60))
       = Success 201 ''Session booked successfully''
           (Some (lesson 2 20 1 t_1030 60 ''pending'' None
                    \<lparr>paymentStatus := ''pending'', createdAt := 8, updatedAt := 8\<rparr>))
   \<and> fst (bookSession None 8 booked_1000 customer (booking_at t_1030 60)) \<noteq> Conflict
   \<and> map (\<lambda>s. (s_id s, artist s, scheduledDate s, duration s, status s))
         (sessions (snd (bookSession None 8 booked_1000 customer (booking_at t_1030 60))))
       = [(1, 1, t_1000, 60, ''pending''), (2, 1, t_1030, 60, ''pending'')]"
  by (simp add: book_defs ex_defs overlaps_def Conflict_def)

text \<open>The rest of the scenario holds: the request for 11:00 for 30 minutes is booked,
  and a request whose window contains the start of a pending session is refused.\<close>

lemma book_third:
  "fst (bookSession None 9 booked_1000 customer (booking_at t_1100 30))
     = Success 201 ''Session booked successfully''
         (Some (lesson 2 20 1 t_1100 30 ''pending'' None
                  \<lparr>paymentStatus := ''pending'', createdAt := 9, updatedAt := 9\<rparr>))"
  by (simp add: book_defs ex_defs)

lemma bookSession_Conflict_iff:
  assumes "findById_artist st (artistId body) = Some a"
    and "window_start body = Some lo" and "window_end body = Some hi"
  shows "fst (bookSession None now st usr body) = Conflict
         \<longleftrightarrow> (\<exists>s\<in>set (sessions st). occupies (artistId body) lo hi s)"
proof -
  obtain d where d: "req_duration body = Some d"
    using assms(2,3) by (auto simp: window_end_def split: option.splits)
  show ?thesis
  proof (cases "find (occupies (artistId body) lo hi) (sessions st)")
    case None
    then have "\<not> (\<exists>s\<in>set (sessions st). occupies (artistId body) lo hi s)"
      by (auto simp: find_None_iff)
    moreover have "fst (bookSession None now st usr body) \<noteq> Conflict"
      using assms d None
      by (simp add: bookSession_def Let_def Conflict_def ServerError_def)
    ultimately show ?thesis by simp
  next
    case (Some s)
    then have "\<exists>s\<in>set (sessions st). occupies (artistId body) lo hi s"
      by (auto simp: find_Some_iff)
    moreover have "fst (bookSession None now st usr body) = Conflict"
      using assms d Some by (simp add: bookSession_def)
    ultimately show ?thesis by simp
  qed
qed

subsection \<open>Updating the status\<close>

lemma find_map_replace:
  assumes "find (\<lambda>x. s_id x = i) ss = Some s" and "s_id s' = i"
  shows "find (\<lambda>x. s_id x = i) (map (\<lambda>x. if s_id x = i then s' else x) ss) = Some s'"
  using assms by (induction ss) (auto split: if_splits)

lemma find_s_id: "find (\<lambda>x. s_id x = i) ss = Some s \<Longrightarrow> s_id s = i \<and> s \<in> set ss"
  by (induction ss) (auto split: if_splits)

lemma findById_session_save:
  assumes "findById_session st sid = Some s" and "s_id s1 = sid"
  shows "findById_session (save_session now st s1) sid = Some (s1\<lparr>updatedAt := now\<rparr>)"
  using assms find_map_replace[of sid "sessions st" s "s1\<lparr>updatedAt := now\<rparr>"]
  by (simp add: findById_session_def save_session_def)

text \<open>
  C6. A caller who is the booking customer, or whose artist profile is the session's
  artist, or an admin, asks for one of the five statuses on an existing session: the
  answer is 200 with the stored session, whose status is the requested one whatever it
  was before; its payment status and rating are the old ones. Of the session only
  \<open>status\<close> and \<open>updatedAt\<close> change, and no other document does.
\<close>

theorem updateSessionStatus_overwrites:
  assumes "findById_session st sid = Some s"
    and "v \<in> set validStatuses"
    and "user s = user_id usr
         \<or> (\<exists>a. findOne_artist st (user_id usr) = Some a \<and> artist s = artist_id a)
         \<or> user_role usr = ''admin''"
  shows "\<exists>s' st'. updateSessionStatus None now st usr sid (Some v)
              = (Success 200 ''Session status updated successfully'' (Some s'), st')
          \<and> findById_session st' sid = Some s'
          \<and> status s' = v \<and> paymentStatus s' = paymentStatus s \<and> rating s' = rating s
          \<and> s' = s\<lparr>status := v, updatedAt := now\<rparr>
          \<and> st' = st\<lparr>sessions := map (\<lambda>x. if s_id x = sid then s' else x) (sessions st)\<rparr>"
proof -
  let ?s' = "s\<lparr>status := v, updatedAt := now\<rparr>"
  let ?st' = "save_session now st (s\<lparr>status := v\<rparr>)"
  have sid: "s_id s = sid"
    using assms(1) find_s_id[of sid "sessions st" s] by (simp add: findById_session_def)
  have auth: "\<not> (user s \<noteq> user_id usr
               \<and> \<not> (case findOne_artist st (user_id usr) of None \<Rightarrow> False
                      | Some a \<Rightarrow> artist s = artist_id a)
               \<and> user_role usr \<noteq> ''admin'')"
    using assms(3) by (auto split: option.splits)
  have found: "findById_session ?st' sid = Some ?s'"
    using findById_session_save[OF assms(1), of "s\<lparr>status := v\<rparr>" now] sid by simp
  have "updateSessionStatus None now st usr sid (Some v)
          = (Success 200 ''Session status updated successfully'' (Some ?s'), ?st')"
    using assms(1,2) auth found sid
    by (auto simp add: updateSessionStatus_def Let_def)
  moreover have "?st' = st\<lparr>sessions := map (\<lambda>x. if s_id x = sid then ?s' else x) (sessions st)\<rparr>"
    using sid by (simp add: save_session_def)
  ultimately show ?thesis using found by simp
qed

text \<open>The artist of a completed and rated session sets it back to pending.\<close>

theorem updateSessionStatus_overwrites_witness:
  "findById_session rated_once 1
     = Some (lesson 1 20 1 t_1000 60 ''completed''
               (Some \<lparr>score = Some 4, review = Some ''good'', ratedAt = Some 5\<rparr>))
   \<and> ''pending'' \<in> set validStatuses
   \<and> findOne_artist rated_once (user_id owning_artist) = Some (artistX\<lparr>ratings_average := 4, ratings_count := 1\<rparr>)
   \<and> fst (updateSessionStatus None 9 rated_once owning_artist 1 (Some ''pending''))
       = Success 200 ''Session status updated successfully''
           (Some (lesson 1 20 1 t_1000 60 ''pending''
                    (Some \<lparr>score = Some 4, review = Some ''good'', ratedAt = Some 5\<rparr>)\<lparr>updatedAt := 9\<rparr>))"
proof -
  have f: "findById_session rated_once 1
     = Some (lesson 1 20 1 t_1000 60 ''completed''
               (Some \<lparr>score = Some 4, review = Some ''good'', ratedAt = Some 5\<rparr>))"
    by (simp add: findById_session_def ex_defs)
  have v: "''pending'' \<in> set validStatuses" by (simp add: validStatuses_def)
  have a: "findOne_artist rated_once (user_id owning_artist) = Some (artistX\<lparr>ratings_average := 4, ratings_count := 1\<rparr>)"
    by (simp add: findOne_artist_def ex_defs)
  have au: "user (lesson 1 20 1 t_1000 60 ''completed''
               (Some \<lparr>score = Some 4, review = Some ''good'', ratedAt = Some 5\<rparr>)) = user_id owning_artist
         \<or> (\<exists>a. findOne_artist rated_once (user_id owning_artist) = Some a \<and> artist (lesson 1 20 1 t_1000 60 ''completed''
               (Some \<lparr>score = Some 4, review = Some ''good'', ratedAt = Some 5\<rparr>)) = artist_id a)
         \<or> user_role owning_artist = ''admin''"
    using a by (simp add: ex_defs)
  from updateSessionStatus_overwrites[OF f v au, of 9]
  show ?thesis using f v a by (auto simp: lesson_def)
qed

subsection \<open>Rating: the four checks\<close>

lemmas resp_defs = ServerError_def ArtistNotFound_def SessionNotFound_def Conflict_def
  InvalidStatus_def ForbiddenUpdate_def ForbiddenRate_def InvalidArgument_def InvalidState_def

lemmas rate_defs = rateSession_def Let_def js_less_def js_greater_def findById_session_def
  findById_artist_def validate_score_def castNumber_def save_session_def save_artist_def
  find_rated_def has_score_def rating_score_def sum_scores_def Math_round_def

lemma rateSession_guard:
  "js_less (req_score body) 1 \<or> js_greater (req_score body) 5
   \<Longrightarrow> rateSession flt now st usr sid body = (InvalidArgument, st)"
  by (simp add: rateSession_def)


lemma rateSession_forbidden:
  "\<not> js_less (req_score body) 1 \<Longrightarrow> \<not> js_greater (req_score body) 5
   \<Longrightarrow> flt \<noteq> Some Session_findById \<Longrightarrow> findById_session st sid = Some s
   \<Longrightarrow> user s \<noteq> user_id usr
   \<Longrightarrow> rateSession flt now st usr sid body = (ForbiddenRate, st)"
  by (simp add: rateSession_def)

lemma rateSession_invalid_state:
  "\<not> js_less (req_score body) 1 \<Longrightarrow> \<not> js_greater (req_score body) 5
   \<Longrightarrow> flt \<noteq> Some Session_findById \<Longrightarrow> findById_session st sid = Some s
   \<Longrightarrow> user s = user_id usr \<Longrightarrow> status s \<noteq> ''completed''
   \<Longrightarrow> rateSession flt now st usr sid body = (InvalidState, st)"
  by (simp add: rateSession_def)


lemma rateSession_success_customer:
  assumes "rateSession flt now st usr sid body = (Success c m d, st')"
    and "findById_session st sid = Some s"
  shows "user s = user_id usr"
  using assms
  by (simp add: rateSession_def Let_def resp_defs split: if_splits option.splits)


lemma js_guard_number:
  "js_less (JNumber q) 1 = (q < 1)" "js_greater (JNumber q) 5 = (5 < q)"
  by (simp_all add: js_less_def js_greater_def)



lemma booked_1000_session:
  "findById_session booked_1000 1 = Some (lesson 1 20 1 t_1000 60 ''pending'' None)"
  by (simp add: findById_session_def booked_1000_def lesson_def)

lemma completed_unrated_session:
  "findById_session completed_unrated 1 = Some (lesson 1 20 1 t_1000 60 ''completed'' None)"
  by (simp add: findById_session_def completed_unrated_def lesson_def)

text \<open>
  C4, as the handler has it. A numeric score below 1 or above 5 (0 and 6 among them) is
  rejected with InvalidArgument before anything is read, whoever calls and whatever
  database call would fail. A session that exists and is not completed is rejected
  with InvalidState when the two earlier checks let the call through: the score
  passes the range guard and the caller is the booking customer. Both rejections leave
  the collections as they were.
\<close>

theorem rateSession_rejections:
  "(q < 1 \<or> 5 < q \<longrightarrow>
      rateSession flt now st usr sid \<lparr>req_score = JNumber q, req_review = rv\<rparr>
        = (InvalidArgument, st))
   \<and> (findById_session st sid = Some s \<and> status s \<noteq> ''completed''
        \<and> user s = user_id usr
        \<and> \<not> js_less (req_score body) 1 \<and> \<not> js_greater (req_score body) 5
        \<and> flt \<noteq> Some Session_findById \<longrightarrow>
      rateSession flt now st usr sid body = (InvalidState, st))"
proof (intro conjI impI)
  assume "q < 1 \<or> 5 < q"
  then show "rateSession flt now st usr sid \<lparr>req_score = JNumber q, req_review = rv\<rparr>
               = (InvalidArgument, st)"
    by (intro rateSession_guard) (simp add: js_guard_number)
next
  assume "findById_session st sid = Some s \<and> status s \<noteq> ''completed''
        \<and> user s = user_id usr
        \<and> \<not> js_less (req_score body) 1 \<and> \<not> js_greater (req_score body) 5
        \<and> flt \<noteq> Some Session_findById"
  then show "rateSession flt now st usr sid body = (InvalidState, st)"
    using rateSession_invalid_state[of body flt st sid s usr now] by blast
qed

text \<open>Score 0 by the admin, score 6 by the customer, and the customer rating the
  pending session 1.\<close>

theorem rateSession_rejections_witness:
  "rateSession (Some Artist_save) 100 booked_1000 admin 1 \<lparr>req_score = JNumber 0, req_review = None\<rparr>
     = (InvalidArgument, booked_1000)
   \<and> rateSession None 100 completed_unrated customer 1 \<lparr>req_score = JNumber 6, req_review = None\<rparr>
     = (InvalidArgument, completed_unrated)
   \<and> findById_session booked_1000 1 = Some (lesson 1 20 1 t_1000 60 ''pending'' None)
   \<and> rateSession None 100 booked_1000 customer 1 \<lparr>req_score = JNumber 3, req_review = None\<rparr>
     = (InvalidState, booked_1000)"
proof -
  have a: "rateSession (Some Artist_save) 100 booked_1000 admin 1 \<lparr>req_score = JNumber 0, req_review = None\<rparr>
     = (InvalidArgument, booked_1000)"
    using rateSession_rejections[of 0 "Some Artist_save" 100 booked_1000 admin 1 None] by simp
  have b: "rateSession None 100 completed_unrated customer 1 \<lparr>req_score = JNumber 6, req_review = None\<rparr>
     = (InvalidArgument, completed_unrated)"
    using rateSession_rejections[of 6 None 100 completed_unrated customer 1 None] by simp
  have c: "rateSession None 100 booked_1000 customer 1 \<lparr>req_score = JNumber 3, req_review = None\<rparr>
     = (InvalidState, booked_1000)"
    using rateSession_rejections[of _ None 100 booked_1000 customer 1 _
        "lesson 1 20 1 t_1000 60 ''pending'' None" "\<lparr>req_score = JNumber 3, req_review = None\<rparr>"]
      booked_1000_session
    by (simp add: js_guard_number lesson_def customer_def)
  show ?thesis using a b c booked_1000_session by simp
qed

text \<open>
  The claim as stated promises InvalidState for every call on a session that is not
  completed. The artist of the pending session 1 rates it with score 3 and receives
  Forbidden: the caller is checked before the status.
\<close>

theorem rateSession_not_completed_counterexample:
  "findById_session booked_1000 1 = Some (lesson 1 20 1 t_1000 60 ''pending'' None)
   \<and> status (lesson 1 20 1 t_1000 60 ''pending'' None) \<noteq> ''completed''
   \<and> rateSession None 100 booked_1000 owning_artist 1 \<lparr>req_score = JNumber 3, req_review = None\<rparr>
       = (ForbiddenRate, booked_1000)
   \<and> (ForbiddenRate :: session response) \<noteq> InvalidState"
proof -
  have "rateSession None 100 booked_1000 owning_artist 1 \<lparr>req_score = JNumber 3, req_review = None\<rparr>
       = (ForbiddenRate, booked_1000)"
    using booked_1000_session
    by (intro rateSession_forbidden[where s = "lesson 1 20 1 t_1000 60 ''pending'' None"])
       (simp_all add: js_guard_number lesson_def owning_artist_def)
  then show ?thesis
    using booked_1000_session by (simp add: lesson_def resp_defs)
qed

text \<open>
  C5, as the handler has it. On an existing session a success implies that the caller
  is the booking customer. Any other caller whose score passes the range guard
  receives Forbidden and nothing changes; the role plays no part, so the owning artist
  and an admin are refused as well.
\<close>

theorem rateSession_customer_only:
  assumes "findById_session st sid = Some s"
  shows "(rateSession flt now st usr sid body = (Success c m d, st') \<longrightarrow> user s = user_id usr)
       \<and> (user s \<noteq> user_id usr
            \<and> \<not> js_less (req_score body) 1 \<and> \<not> js_greater (req_score body) 5
            \<and> flt \<noteq> Some Session_findById \<longrightarrow>
          rateSession flt now st usr sid body = (ForbiddenRate, st))"
  using assms rateSession_success_customer[of flt now st usr sid body c m d st' s]
    rateSession_forbidden[of body flt st sid s usr now]
  by blast

text \<open>On the completed session 1 the owning artist and the admin receive Forbidden;
  the customer's call succeeds.\<close>

theorem rateSession_customer_only_witness:
  "findById_session completed_unrated 1 = Some (lesson 1 20 1 t_1000 60 ''completed'' None)
   \<and> rateSession None 100 completed_unrated owning_artist 1 \<lparr>req_score = JNumber 3, req_review = None\<rparr>
       = (ForbiddenRate, completed_unrated)
   \<and> rateSession None 100 completed_unrated admin 1 \<lparr>req_score = JNumber 3, req_review = None\<rparr>
       = (ForbiddenRate, completed_unrated)
   \<and> fst (rateSession None 100 completed_unrated customer 1 \<lparr>req_score = JNumber 3, req_review = None\<rparr>)
       = Success 200 ''Session rated successfully''
           (lesson 1 20 1 t_1000 60 ''completed''
              (Some \<lparr>score = Some 3, review = None, ratedAt = Some 100\<rparr>)\<lparr>updatedAt := 100\<rparr>)
   \<and> user (lesson 1 20 1 t_1000 60 ''completed'' None) = user_id customer"
proof -
  note f = completed_unrated_session
  have a: "rateSession None 100 completed_unrated owning_artist 1 \<lparr>req_score = JNumber 3, req_review = None\<rparr>
       = (ForbiddenRate, completed_unrated)"
    using rateSession_customer_only[OF f, of None 100 owning_artist "\<lparr>req_score = JNumber 3, req_review = None\<rparr>"]
    by (simp add: js_guard_number lesson_def owning_artist_def)
  have b: "rateSession None 100 completed_unrated admin 1 \<lparr>req_score = JNumber 3, req_review = None\<rparr>
       = (ForbiddenRate, completed_unrated)"
    using rateSession_customer_only[OF f, of None 100 admin "\<lparr>req_score = JNumber 3, req_review = None\<rparr>"]
    by (simp add: js_guard_number lesson_def admin_def)
  obtain st' where c: "rateSession None 100 completed_unrated customer 1 \<lparr>req_score = JNumber 3, req_review = None\<rparr>
       = (Success 200 ''Session rated successfully''
           (lesson 1 20 1 t_1000 60 ''completed''
              (Some \<lparr>score = Some 3, review = None, ratedAt = Some 100\<rparr>)\<lparr>updatedAt := 100\<rparr>),
          st')"
    by (simp add: rate_defs ex_defs)
  have d: "user (lesson 1 20 1 t_1000 60 ''completed'' None) = user_id customer"
    using rateSession_customer_only[OF f, of None 100 customer "\<lparr>req_score = JNumber 3, req_review = None\<rparr>"] c
    by blast
  show ?thesis using f a b c d by simp
qed

text \<open>
  The claim as stated promises Forbidden to every caller other than the customer. The
  admin rates the completed session 1 with score 6 and receives InvalidArgument: the
  range guard runs before the session is read.
\<close>

theorem rateSession_forbidden_counterexample:
  "findById_session completed_unrated 1 = Some (lesson 1 20 1 t_1000 60 ''completed'' None)
   \<and> user (lesson 1 20 1 t_1000 60 ''completed'' None) \<noteq> user_id admin
   \<and> rateSession None 100 completed_unrated admin 1 \<lparr>req_score = JNumber 6, req_review = None\<rparr>
       = (InvalidArgument, completed_unrated)
   \<and> (InvalidArgument :: session response) \<noteq> ForbiddenRate"
proof -
  have "rateSession None 100 completed_unrated admin 1 \<lparr>req_score = JNumber 6, req_review = None\<rparr>
       = (InvalidArgument, completed_unrated)"
    by (intro rateSession_guard) (simp add: js_guard_number)
  then show ?thesis
    using completed_unrated_session by (simp add: lesson_def admin_def resp_defs)
qed



subsection \<open>Rating: failures and the two writes\<close>

lemma save_session_artists: "artists (save_session now st s) = artists st"
  by (simp add: save_session_def)

text \<open>A failed call leaves the collections as they were, or it is a 500 raised after
  the session was saved.\<close>

lemma rateSession_failure_cases:
  assumes "rateSession flt now st usr sid body = (Failure c m, st')"
  shows "st' = st
        \<or> (c = 500 \<and> flt \<noteq> Some Session_findById \<and> flt \<noteq> Some Session_save
            \<and> (\<exists>s sc. findById_session st sid = Some s
                \<and> validate_score (req_score body) = Some sc
                \<and> st' = save_session now st
                          (s\<lparr>rating := Some \<lparr>score = sc, review = req_review body,
                                             ratedAt = Some now\<rparr>,
                             updatedAt := now\<rparr>)))"
  using assms
  by (auto simp: rateSession_def Let_def resp_defs split: if_splits option.splits)

text \<open>
  C8, as the handler has it. A call that fails never changes an artist profile. The
  four rejections (every failure that is not a 500) change nothing, and neither does a
  500 raised by reading or saving the session. Any other failure comes after
  \<^verbatim>\<open>session.save()\<close>: the collections then hold the session with its new rating and
  the old aggregate. The two saves are separate writes with no transaction around
  them.
\<close>

theorem rateSession_failure_effect:
  assumes "rateSession flt now st usr sid body = (Failure c m, st')"
  shows "artists st' = artists st
       \<and> (c \<noteq> 500 \<longrightarrow> st' = st)
       \<and> (flt = Some Session_findById \<or> flt = Some Session_save \<longrightarrow> st' = st)
       \<and> (st' \<noteq> st \<longrightarrow>
            (\<exists>s sc. findById_session st sid = Some s
                \<and> validate_score (req_score body) = Some sc
                \<and> st' = save_session now st
                          (s\<lparr>rating := Some \<lparr>score = sc, review = req_review body,
                                             ratedAt = Some now\<rparr>,
                             updatedAt := now\<rparr>)))"
  using rateSession_failure_cases[OF assms]
  by (auto simp: save_session_artists)

lemma rate_artist_save_fails:
  "rateSession (Some Artist_save) 100 completed_unrated customer 1
       \<lparr>req_score = JNumber 4, req_review = Some ''good''\<rparr>
     = (Failure 500 ''Server error'',
        completed_unrated\<lparr>sessions :=
          [lesson 1 20 1 t_1000 60 ''completed''
             (Some \<lparr>score = Some 4, review = Some ''good'', ratedAt = Some 100\<rparr>)
             \<lparr>updatedAt := 100\<rparr>,
           lesson 2 21 1 t_1100 30 ''completed'' None,
           lesson 3 21 2 t_1030 60 ''completed'' None]\<rparr>)"
  by (simp add: rate_defs ex_defs resp_defs)

text \<open>The save of the artist is rejected: the rating of session 1 is stored, the
  profiles are the old ones. The admin's call is refused and changes nothing.\<close>

theorem rateSession_failure_effect_witness:
  "rateSession (Some Artist_save) 100 completed_unrated customer 1
       \<lparr>req_score = JNumber 4, req_review = Some ''good''\<rparr>
     = (Failure 500 ''Server error'',
        completed_unrated\<lparr>sessions :=
          [lesson 1 20 1 t_1000 60 ''completed''
             (Some \<lparr>score = Some 4, review = Some ''good'', ratedAt = Some 100\<rparr>)
             \<lparr>updatedAt := 100\<rparr>,
           lesson 2 21 1 t_1100 30 ''completed'' None,
           lesson 3 21 2 t_1030 60 ''completed'' None]\<rparr>)
   \<and> artists (completed_unrated\<lparr>sessions :=
          [lesson 1 20 1 t_1000 60 ''completed''
             (Some \<lparr>score = Some 4, review = Some ''good'', ratedAt = Some 100\<rparr>)
             \<lparr>updatedAt := 100\<rparr>,
           lesson 2 21 1 t_1100 30 ''completed'' None,
           lesson 3 21 2 t_1030 60 ''completed'' None]\<rparr>) = [artistX, artistY]
   \<and> rateSession None 100 completed_unrated admin 1
       \<lparr>req_score = JNumber 4, req_review = None\<rparr>
     = (Failure 403 ''Not authorized to rate this session'', completed_unrated)"
proof -
  note a = rate_artist_save_fails
  have b: "rateSession None 100 completed_unrated admin 1
       \<lparr>req_score = JNumber 4, req_review = None\<rparr>
     = (Failure 403 ''Not authorized to rate this session'',
        snd (rateSession None 100 completed_unrated admin 1
               \<lparr>req_score = JNumber 4, req_review = None\<rparr>))"
    by (simp add: rate_defs ex_defs resp_defs)
  have c: "snd (rateSession None 100 completed_unrated admin 1
               \<lparr>req_score = JNumber 4, req_review = None\<rparr>) = completed_unrated"
    using rateSession_failure_effect[OF b] by simp
  have d: "artists (completed_unrated\<lparr>sessions :=
          [lesson 1 20 1 t_1000 60 ''completed''
             (Some \<lparr>score = Some 4, review = Some ''good'', ratedAt = Some 100\<rparr>)
             \<lparr>updatedAt := 100\<rparr>,
           lesson 2 21 1 t_1100 30 ''completed'' None,
           lesson 3 21 2 t_1030 60 ''completed'' None]\<rparr>) = [artistX, artistY]"
    using rateSession_failure_effect[OF a] by (simp add: completed_unrated_def)
  show ?thesis using a b c d by simp
qed

text \<open>
  The claim promises that a failure after the session is saved and before the artist
  is saved never leaves only the session modified. With the artist's save rejected the
  answer is the 500 of the catch block, session 1 carries the rating 4, and artist X
  still has count 0.
\<close>

theorem rateSession_partial_write_counterexample:
  "fst (rateSession (Some Artist_save) 100 completed_unrated customer 1
          \<lparr>req_score = JNumber 4, req_review = Some ''good''\<rparr>) = ServerError
   \<and> map rating (sessions (snd (rateSession (Some Artist_save) 100 completed_unrated customer 1
          \<lparr>req_score = JNumber 4, req_review = Some ''good''\<rparr>)))
       = [Some \<lparr>score = Some 4, review = Some ''good'', ratedAt = Some 100\<rparr>, None, None]
   \<and> map rating (sessions completed_unrated) = [None, None, None]
   \<and> artists (snd (rateSession (Some Artist_save) 100 completed_unrated customer 1
          \<lparr>req_score = JNumber 4, req_review = Some ''good''\<rparr>))
       = artists completed_unrated
   \<and> map ratings_count (artists completed_unrated) = [0, 0]"
  using rate_artist_save_fails by (simp add: ex_defs resp_defs)

text \<open>
  The same happens with no database call rejected: the customer rates the already
  rated session 1 again without a score. The stored score is removed, no rated session
  of artist X is left, the average of nothing is NaN, and the artist's save fails.
\<close>

lemma rate_without_score_fails:
  "rateSession None 100 rated_once customer 1 \<lparr>req_score = JUndefined, req_review = None\<rparr>
     = (ServerError,
        rated_once\<lparr>sessions :=
          [lesson 1 20 1 t_1000 60 ''completed''
             (Some \<lparr>score = None, review = None, ratedAt = Some 100\<rparr>)\<lparr>updatedAt := 100\<rparr>,
           lesson 2 21 1 t_1100 30 ''completed'' None]\<rparr>)"
  by (simp add: rate_defs ex_defs resp_defs)

subsection \<open>Rating: the aggregate\<close>

lemma foldl_add_sum_list:
  "foldl (\<lambda>sum s. sum + g s) a ss = a + sum_list (map g ss)" for a :: rat
  by (induction ss arbitrary: a) (simp_all add: add.assoc)

lemma sum_scores_sum_list: "sum_scores ss = sum_list (map rating_score ss)"
  by (simp add: sum_scores_def foldl_add_sum_list)



lemma map_filter_map_same:
  "(\<forall>x\<in>set xs. f (g x) = f x) \<Longrightarrow> List.map_filter f (map g xs) = List.map_filter f xs"
  by (induction xs) (auto split: option.splits)

lemma distinct_s_id_unique:
  assumes "distinct (map s_id ss)" and "s \<in> set ss" and "x \<in> set ss" and "s_id x = s_id s"
  shows "x = s"
  using assms by (meson distinct_map inj_on_contraD)




lemma find_rated_save_artist: "find_rated (save_artist st a) aid = find_rated st aid"
  by (simp add: find_rated_def save_artist_def)

text \<open>What a successful call has done.\<close>

lemma rateSession_success:
  assumes "rateSession flt now st usr sid body = (Success c m d, st')"
  shows "\<exists>s sc a. findById_session st sid = Some s \<and> user s = user_id usr
           \<and> status s = ''completed''
           \<and> validate_score (req_score body) = Some sc
           \<and> d = s\<lparr>rating := Some \<lparr>score = sc, review = req_review body, ratedAt = Some now\<rparr>,
                    updatedAt := now\<rparr>
           \<and> findById_artist (save_session now st d) (artist s) = Some a
           \<and> find_rated (save_session now st d) (artist s) \<noteq> []
           \<and> st' = save_artist (save_session now st d)
                     (a\<lparr>ratings_average :=
                          Math_round (sum_scores (find_rated (save_session now st d) (artist s))
                            / of_nat (length (find_rated (save_session now st d) (artist s))) * 10) / 10,
                        ratings_count := length (find_rated (save_session now st d) (artist s))\<rparr>)"
  using assms
  by (auto simp: rateSession_def Let_def resp_defs split: if_splits option.splits)


lemma validate_score_range: "validate_score v = Some (Some q) \<Longrightarrow> 1 \<le> q \<and> q \<le> 5"
  by (auto simp: validate_score_def split: option.splits jsnum.splits if_splits)

lemma validate_score_number: "1 \<le> q \<Longrightarrow> q \<le> 5 \<Longrightarrow> validate_score (JNumber q) = Some (Some q)"
  by (simp add: validate_score_def castNumber_def)

lemma findById_artist_save_session:
  "findById_artist (save_session now st s1) i = findById_artist st i"
  by (simp add: findById_artist_def save_session_def)

lemma findById_session_save_artist:
  "findById_session (save_artist st a) i = findById_session st i"
  by (simp add: findById_session_def save_artist_def)

lemma find_artist_replace_None:
  "(find (\<lambda>x. artist_id x = i) (map (\<lambda>x. if artist_id x = artist_id a then a else x) as) = None)
   = (find (\<lambda>x. artist_id x = i) as = None)"
  by (induction as) auto

lemma findById_artist_save_artist_None:
  "(findById_artist (save_artist st a) i = None) = (findById_artist st i = None)"
  by (simp add: findById_artist_def save_artist_def find_artist_replace_None)

lemma map_s_id_replace:
  "s_id s' = i \<Longrightarrow> map s_id (map (\<lambda>x. if s_id x = i then s' else x) ss) = map s_id ss"
  by (induction ss) auto

lemma map_artist_id_replace:
  "map artist_id (map (\<lambda>x. if artist_id x = artist_id a then a else x) as) = map artist_id as"
  by (induction as) auto

lemma s_ids_save_session:
  "map s_id (sessions (save_session now st s1)) = map s_id (sessions st)"
  unfolding save_session_def
  using map_s_id_replace[of "s1\<lparr>updatedAt := now\<rparr>" "s_id s1" "sessions st"] by simp

lemma artist_ids_save_artist:
  "map artist_id (artists (save_artist st a)) = map artist_id (artists st)"
  unfolding save_artist_def using map_artist_id_replace[of a "artists st"] by simp

lemma store_ok_save_session:
  assumes "store_ok st" and "findById_session st sid = Some s" and "s_id s1 = sid"
    and "artist s1 = artist s"
    and "case Option.bind (rating s1) score of None \<Rightarrow> True | Some q \<Rightarrow> 1 \<le> q \<and> q \<le> 5"
  shows "store_ok (save_session now st s1)"
proof -
  let ?g = "\<lambda>x. if s_id x = s_id s1 then s1\<lparr>updatedAt := now\<rparr> else x"
  have s: "s_id s = sid \<and> s \<in> set (sessions st)"
    using assms(2) find_s_id[of sid "sessions st" s] by (simp add: findById_session_def)
  have old: "\<forall>x\<in>set (sessions st). findById_artist st (artist x) \<noteq> None
               \<and> (case Option.bind (rating x) score of None \<Rightarrow> True | Some q \<Rightarrow> 1 \<le> q \<and> q \<le> 5)"
    using assms(1) by (simp add: store_ok_def list_all_iff)
  have new: "findById_artist st (artist (?g x)) \<noteq> None
               \<and> (case Option.bind (rating (?g x)) score of None \<Rightarrow> True | Some q \<Rightarrow> 1 \<le> q \<and> q \<le> 5)"
    if "x \<in> set (sessions st)" for x
    using that old s assms(4,5) by auto
  have "distinct (map s_id (sessions (save_session now st s1)))"
    using assms(1) by (simp add: store_ok_def s_ids_save_session)
  moreover have "distinct (map artist_id (artists (save_session now st s1)))"
    using assms(1) by (simp add: store_ok_def save_session_def)
  moreover have "list_all (\<lambda>x. findById_artist (save_session now st s1) (artist x) \<noteq> None
               \<and> (case Option.bind (rating x) score of None \<Rightarrow> True | Some q \<Rightarrow> 1 \<le> q \<and> q \<le> 5))
            (sessions (save_session now st s1))"
  proof -
    have st1: "sessions (save_session now st s1) = map ?g (sessions st)"
      by (simp add: save_session_def)
    have "\<forall>y\<in>set (map ?g (sessions st)). findById_artist st (artist y) \<noteq> None
               \<and> (case Option.bind (rating y) score of None \<Rightarrow> True | Some q \<Rightarrow> 1 \<le> q \<and> q \<le> 5)"
      using new by (simp only: set_map ball_simps) blast
    then show ?thesis
      unfolding list_all_iff findById_artist_save_session st1 .
  qed
  ultimately show ?thesis by (simp add: store_ok_def)
qed

lemma store_ok_save_artist:
  assumes "store_ok st"
  shows "store_ok (save_artist st a)"
proof -
  let ?h = "\<lambda>x. if artist_id x = artist_id a then a else x"
  have "distinct (map artist_id (artists (save_artist st a)))"
    using assms by (simp add: store_ok_def artist_ids_save_artist)
  moreover have "distinct (map s_id (sessions (save_artist st a)))"
    using assms by (simp add: store_ok_def save_artist_def)
  moreover have "list_all (\<lambda>x. findById_artist (save_artist st a) (artist x) \<noteq> None
               \<and> (case Option.bind (rating x) score of None \<Rightarrow> True | Some q \<Rightarrow> 1 \<le> q \<and> q \<le> 5))
            (sessions (save_artist st a))"
    using assms
    by (simp add: store_ok_def list_all_iff findById_artist_save_artist_None)
       (simp add: save_artist_def)
  ultimately show ?thesis by (simp add: store_ok_def)
qed


lemma store_ok_rateSession_success:
  assumes "store_ok st" and "rateSession flt now st usr sid body = (Success c m d, st')"
  shows "store_ok st'"
proof -
  obtain s sc a where f: "findById_session st sid = Some s"
    and v: "validate_score (req_score body) = Some sc"
    and d: "d = s\<lparr>rating := Some \<lparr>score = sc, review = req_review body, ratedAt = Some now\<rparr>,
                    updatedAt := now\<rparr>"
    and st': "st' = save_artist (save_session now st d)
                     (a\<lparr>ratings_average :=
                          Math_round (sum_scores (find_rated (save_session now st d) (artist s))
                            / of_nat (length (find_rated (save_session now st d) (artist s))) * 10) / 10,
                        ratings_count := length (find_rated (save_session now st d) (artist s))\<rparr>)"
    using rateSession_success[OF assms(2)] by blast
  have sid: "s_id s = sid"
    using f find_s_id[of sid "sessions st" s] by (simp add: findById_session_def)
  have sc: "case Option.bind (rating d) score of None \<Rightarrow> True | Some q \<Rightarrow> 1 \<le> q \<and> q \<le> 5"
    using v validate_score_range[of "req_score body"] d by (cases sc) simp_all
  have "store_ok (save_session now st d)"
    using store_ok_save_session[OF assms(1) f _ _ sc, of now] sid d by simp
  then show ?thesis unfolding st' by (rule store_ok_save_artist)
qed




lemma sum_list_bounds:
  assumes "\<forall>x\<in>set xs. 1 \<le> g x \<and> g x \<le> (5::rat)"
  shows "of_nat (length xs) \<le> sum_list (map g xs) \<and> sum_list (map g xs) \<le> 5 * of_nat (length xs)"
  using assms by (induction xs) (auto simp: algebra_simps)

lemma Math_round_bounds:
  assumes "10 \<le> y" and "y \<le> 50"
  shows "0 \<le> Math_round y / 10 \<and> Math_round y / 10 \<le> 5"
proof -
  have "(10::int) \<le> \<lfloor>y + 1 / 2\<rfloor>" using assms(1) by (simp add: le_floor_iff)
  moreover have "\<lfloor>y + 1 / 2\<rfloor> \<le> (50::int)" using assms(2) by (simp add: floor_le_iff)
  ultimately have "(10::rat) \<le> of_int \<lfloor>y + 1 / 2\<rfloor> \<and> of_int \<lfloor>y + 1 / 2\<rfloor> \<le> (50::rat)"
    by (metis of_int_le_iff of_int_numeral)
  then show ?thesis by (simp add: Math_round_def)
qed

lemma store_ok_rating_score:
  assumes "store_ok st" and "x \<in> set (find_rated st aid)"
  shows "1 \<le> rating_score x \<and> rating_score x \<le> 5"
proof -
  have x: "x \<in> set (sessions st)" and h: "has_score x"
    using assms(2) by (simp_all add: find_rated_def)
  have "case Option.bind (rating x) score of None \<Rightarrow> True | Some q \<Rightarrow> 1 \<le> q \<and> q \<le> 5"
    using assms(1) x by (simp add: store_ok_def list_all_iff)
  then show ?thesis
    using h by (cases "rating x") (auto simp: has_score_def rating_score_def)
qed

lemma average_in_range:
  assumes "store_ok st" and "find_rated st aid \<noteq> []"
  shows "0 \<le> Math_round (sum_scores (find_rated st aid) / of_nat (length (find_rated st aid)) * 10) / 10
       \<and> Math_round (sum_scores (find_rated st aid) / of_nat (length (find_rated st aid)) * 10) / 10 \<le> 5"
proof -
  define xs where "xs = find_rated st aid"
  define n :: rat where "n = of_nat (length xs)"
  have n: "0 < n" using assms(2) by (simp add: n_def xs_def)
  have "\<forall>x\<in>set xs. 1 \<le> rating_score x \<and> rating_score x \<le> 5"
    using store_ok_rating_score[OF assms(1)] by (simp add: xs_def)
  then have b: "n \<le> sum_scores xs \<and> sum_scores xs \<le> 5 * n"
    using sum_list_bounds[of xs rating_score] by (simp add: sum_scores_sum_list n_def)
  define m where "m = sum_scores xs / n"
  have "1 \<le> m" unfolding m_def using b n by (simp add: le_divide_eq)
  moreover have "m \<le> 5" unfolding m_def using b n by (simp add: divide_le_eq)
  ultimately have "10 \<le> m * 10 \<and> m * 10 \<le> 50" by simp
  then have "0 \<le> Math_round (m * 10) / 10 \<and> Math_round (m * 10) / 10 \<le> 5"
    using Math_round_bounds[of "m * 10"] by blast
  then show ?thesis
    unfolding m_def n_def xs_def .
qed

text \<open>
  C7. A completed session that already carries a rating is rated again by its customer
  with a score between 1 and 5: the call succeeds with 200, and the stored session
  carries the new score, review and date in place of the old ones. Nothing in the
  handler looks at the old rating. The collections are as the routes leave them
  (\<open>store_ok\<close>), so the artist exists and the recomputed average passes its validator.
\<close>

theorem rateSession_rerate_overwrites:
  assumes "store_ok st"
    and "findById_session st sid = Some s"
    and "status s = ''completed''"
    and "rating s = Some r0" and "score r0 = Some q0"
    and "user s = user_id usr"
    and "1 \<le> q" and "q \<le> 5"
  shows "\<exists>st'. rateSession None now st usr sid \<lparr>req_score = JNumber q, req_review = rv\<rparr>
            = (Success 200 ''Session rated successfully''
                 (s\<lparr>rating := Some \<lparr>score = Some q, review = rv, ratedAt = Some now\<rparr>,
                    updatedAt := now\<rparr>), st')
          \<and> findById_session st' sid
              = Some (s\<lparr>rating := Some \<lparr>score = Some q, review = rv, ratedAt = Some now\<rparr>,
                        updatedAt := now\<rparr>)"
proof -
  define s1 where "s1 = s\<lparr>rating := Some \<lparr>score = Some q, review = rv, ratedAt = Some now\<rparr>,
                         updatedAt := now\<rparr>"
  define st1 where "st1 = save_session now st s1"
  have sid: "s_id s = sid" and smem: "s \<in> set (sessions st)"
    using assms(2) find_s_id[of sid "sessions st" s] by (simp_all add: findById_session_def)
  have g: "\<not> js_less (JNumber q) 1 \<and> \<not> js_greater (JNumber q) 5"
    using assms(7,8) by (simp add: js_guard_number)
  have v: "validate_score (JNumber q) = Some (Some q)"
    using assms(7,8) by (rule validate_score_number)
  have f1: "findById_session st1 sid = Some s1"
    unfolding st1_def using findById_session_save[OF assms(2), of s1 now] sid
    by (simp add: s1_def)
  have ok1: "store_ok st1"
    unfolding st1_def
    using store_ok_save_session[OF assms(1,2), of s1 now] sid assms(7,8) by (simp add: s1_def)
  have "findById_artist st (artist s) \<noteq> None"
    using assms(1) smem by (simp add: store_ok_def list_all_iff)
  then obtain a where a: "findById_artist st1 (artist s1) = Some a"
    by (auto simp: st1_def findById_artist_save_session s1_def)
  have "s1 \<in> set (sessions st1)"
    using f1 find_s_id[of sid "sessions st1" s1] by (simp add: findById_session_def)
  moreover have "artist s1 = artist s1 \<and> has_score s1"
    by (simp add: has_score_def s1_def)
  ultimately have "s1 \<in> set (find_rated st1 (artist s1))"
    by (simp add: find_rated_def)
  then have ne: "find_rated st1 (artist s1) \<noteq> []"
    by auto
  have rng: "\<not> (Math_round (sum_scores (find_rated st1 (artist s1))
                  / of_nat (length (find_rated st1 (artist s1))) * 10) / 10 < 0
             \<or> 5 < Math_round (sum_scores (find_rated st1 (artist s1))
                  / of_nat (length (find_rated st1 (artist s1))) * 10) / 10)"
    using average_in_range[OF ok1 ne] by (simp add: not_less)
  let ?st' = "save_artist st1
                (a\<lparr>ratings_average :=
                     Math_round (sum_scores (find_rated st1 (artist s1))
                       / of_nat (length (find_rated st1 (artist s1))) * 10) / 10,
                   ratings_count := length (find_rated st1 (artist s1))\<rparr>)"
  have "rateSession None now st usr sid \<lparr>req_score = JNumber q, req_review = rv\<rparr>
          = (Success 200 ''Session rated successfully'' s1, ?st')"
    using g assms(2,3,6) v a ne rng
    unfolding rateSession_def Let_def s1_def[symmetric] st1_def[symmetric]
    by (simp add: s1_def[symmetric] st1_def[symmetric])
  moreover have "findById_session ?st' sid = Some s1"
    using f1 by (simp add: findById_session_save_artist)
  ultimately show ?thesis unfolding s1_def by blast
qed

lemma rated_once_ok: "store_ok rated_once"
  by (simp add: store_ok_def findById_artist_def ex_defs)

lemma rated_once_session:
  "findById_session rated_once 1
     = Some (lesson 1 20 1 t_1000 60 ''completed''
               (Some \<lparr>score = Some 4, review = Some ''good'', ratedAt = Some 5\<rparr>))"
  by (simp add: findById_session_def rated_once_def lesson_def)

text \<open>Session 1 carries the rating 4 with a review; the customer rates it 2 without
  a review.\<close>

theorem rateSession_rerate_overwrites_witness:
  "store_ok rated_once
   \<and> findById_session rated_once 1
       = Some (lesson 1 20 1 t_1000 60 ''completed''
                 (Some \<lparr>score = Some 4, review = Some ''good'', ratedAt = Some 5\<rparr>))
   \<and> fst (rateSession None 100 rated_once customer 1 \<lparr>req_score = JNumber 2, req_review = None\<rparr>)
       = Success 200 ''Session rated successfully''
           (lesson 1 20 1 t_1000 60 ''completed''
              (Some \<lparr>score = Some 2, review = None, ratedAt = Some 100\<rparr>)\<lparr>updatedAt := 100\<rparr>)
   \<and> Option.bind (findById_session
         (snd (rateSession None 100 rated_once customer 1
                 \<lparr>req_score = JNumber 2, req_review = None\<rparr>)) 1) rating
       = Some \<lparr>score = Some 2, review = None, ratedAt = Some 100\<rparr>"
proof -
  let ?s = "lesson 1 20 1 t_1000 60 ''completed''
               (Some \<lparr>score = Some 4, review = Some ''good'', ratedAt = Some 5\<rparr>)"
  have st: "status ?s = ''completed''"
    and r: "rating ?s = Some \<lparr>score = Some 4, review = Some ''good'', ratedAt = Some 5\<rparr>"
    and sc: "score \<lparr>score = Some 4, review = Some ''good'', ratedAt = Some 5\<rparr> = Some 4"
    and u: "user ?s = user_id customer"
    by (simp_all add: lesson_def customer_def)
  obtain st' where
    "rateSession None 100 rated_once customer 1 \<lparr>req_score = JNumber 2, req_review = None\<rparr>
       = (Success 200 ''Session rated successfully''
            (?s\<lparr>rating := Some \<lparr>score = Some 2, review = None, ratedAt = Some 100\<rparr>,
                updatedAt := 100\<rparr>), st')"
    and "findById_session st' 1
           = Some (?s\<lparr>rating := Some \<lparr>score = Some 2, review = None, ratedAt = Some 100\<rparr>,
                      updatedAt := 100\<rparr>)"
    using rateSession_rerate_overwrites[OF rated_once_ok rated_once_session st r sc u,
        of 2 100 None]
    by auto
  then show ?thesis
    using rated_once_ok rated_once_session by (simp add: lesson_def)
qed







subsection \<open>The routes keep the collections well formed\<close>

text \<open>The empty collections satisfy \<open>store_ok\<close>, and booking, updating the status
  and rating keep it, whatever they answer.\<close>

lemma store_ok_empty: "store_ok \<lparr>artists = [], sessions = []\<rparr>"
  by (simp add: store_ok_def)

lemma store_ok_rateSession:
  assumes "store_ok st" and "rateSession flt now st usr sid body = (r, st')"
  shows "store_ok st'"
proof (cases r)
  case (Success c m d)
  then show ?thesis using assms store_ok_rateSession_success by blast
next
  case (Failure c m)
  show ?thesis
  proof (cases "st' = st")
    case True
    then show ?thesis using assms(1) by simp
  next
    case False
    then obtain s sc where f: "findById_session st sid = Some s"
      and v: "validate_score (req_score body) = Some sc"
      and st': "st' = save_session now st
                        (s\<lparr>rating := Some \<lparr>score = sc, review = req_review body,
                                           ratedAt = Some now\<rparr>,
                           updatedAt := now\<rparr>)"
      using rateSession_failure_cases[of flt now st usr sid body c m st'] assms(2) Failure
      by blast
    have sid: "s_id s = sid"
      using f find_s_id[of sid "sessions st" s] by (simp add: findById_session_def)
    have "case sc of None \<Rightarrow> True | Some q \<Rightarrow> 1 \<le> q \<and> q \<le> 5"
      using v validate_score_range[of "req_score body"] by (cases sc) simp_all
    then show ?thesis
      unfolding st' using store_ok_save_session[OF assms(1) f, of _ now] sid by simp
  qed
qed

lemma store_ok_updateSessionStatus:
  assumes "store_ok st" and "updateSessionStatus flt now st usr sid new_status = (r, st')"
  shows "store_ok st'"
proof (cases "st' = st")
  case True
  then show ?thesis using assms(1) by simp
next
  case False
  then obtain s v where f: "findById_session st sid = Some s"
    and st': "st' = save_session now st (s\<lparr>status := v\<rparr>)"
    using assms(2)
    by (auto simp: updateSessionStatus_def Let_def split: option.splits if_splits)
  have s: "s_id s = sid \<and> s \<in> set (sessions st)"
    using f find_s_id[of sid "sessions st" s] by (simp add: findById_session_def)
  have "case Option.bind (rating s) score of None \<Rightarrow> True | Some q \<Rightarrow> 1 \<le> q \<and> q \<le> 5"
    using assms(1) s by (simp add: store_ok_def list_all_iff)
  then show ?thesis
    unfolding st' using store_ok_save_session[OF assms(1) f, of "s\<lparr>status := v\<rparr>" now] s by simp
qed

lemma store_ok_bookSession:
  assumes "store_ok st" and "bookSession flt now st usr body = (r, st')"
  shows "store_ok st'"
proof (cases "st' = st")
  case True
  then show ?thesis using assms(1) by simp
next
  case False
  let ?i = "fresh_oid (map s_id (sessions st))"
  from False obtain a lo d where a: "findById_artist st (artistId body) = Some a"
    and st': "st' = st\<lparr>sessions := sessions st @ [new_session ?i now usr body lo d]\<rparr>"
    using assms(2)
    by (auto simp: bookSession_def Let_def split: option.splits if_splits)
  let ?doc = "new_session ?i now usr body lo d"
  have fresh: "s_id ?doc \<notin> set (map s_id (sessions st))"
    using fresh_oid_notin[of "map s_id (sessions st)"] by (simp add: s_id_new_session)
  have fa: "findById_artist st' i = findById_artist st i" for i
    by (simp add: st' findById_artist_def)
  have doc: "artist ?doc = artistId body \<and> rating ?doc = None"
    by (simp add: new_session_def)
  have "distinct (map s_id (sessions st'))"
    using assms(1) fresh by (simp add: st' store_ok_def)
  moreover have "distinct (map artist_id (artists st'))"
    using assms(1) by (simp add: st' store_ok_def)
  moreover have "list_all (\<lambda>s. findById_artist st' (artist s) \<noteq> None
                       \<and> (case Option.bind (rating s) score of
                             None \<Rightarrow> True
                           | Some q \<Rightarrow> 1 \<le> q \<and> q \<le> 5)) (sessions st')"
    unfolding fa using assms(1) a doc by (simp add: st' store_ok_def)
  ultimately show ?thesis by (simp add: store_ok_def)
qed

text \<open>Booking and updating the status do not touch a rating or an aggregate, so they
  keep \<open>ratings_consistent\<close> as well.\<close>

lemma rated_scores_append_unrated:
  assumes "rating doc = None"
  shows "rated_scores (st\<lparr>sessions := sessions st @ [doc]\<rparr>) aid = rated_scores st aid"
  using assms by (simp add: rated_scores_def List.map_filter_def)

lemma rated_scores_same_rating:
  assumes "\<forall>x\<in>set (sessions st). artist (g x) = artist x \<and> rating (g x) = rating x"
  shows "rated_scores (st\<lparr>sessions := map g (sessions st)\<rparr>) aid = rated_scores st aid"
proof -
  let ?f = "\<lambda>s. if artist s = aid then Option.bind (rating s) score else None"
  have "\<forall>x\<in>set (sessions st). ?f (g x) = ?f x" using assms by simp
  then have "List.map_filter ?f (map g (sessions st)) = List.map_filter ?f (sessions st)"
    by (rule map_filter_map_same)
  then show ?thesis by (simp add: rated_scores_def)
qed

lemma ratings_consistent_cong:
  assumes "ratings_consistent st" and "artists st' = artists st"
    and "\<And>aid. rated_scores st' aid = rated_scores st aid"
  shows "ratings_consistent st'"
  using assms by (simp add: ratings_consistent_def)

lemma ratings_consistent_bookSession:
  assumes "ratings_consistent st" and "bookSession flt now st usr body = (r, st')"
  shows "ratings_consistent st'"
proof (cases "st' = st")
  case True
  then show ?thesis using assms(1) by simp
next
  case False
  then obtain lo d where
    st': "st' = st\<lparr>sessions := sessions st
             @ [new_session (fresh_oid (map s_id (sessions st))) now usr body lo d]\<rparr>"
    using assms(2)
    by (auto simp: bookSession_def Let_def split: option.splits if_splits)
  have doc: "rating (new_session (fresh_oid (map s_id (sessions st))) now usr body lo d) = None"
    by (simp add: new_session_def)
  show ?thesis
  proof (rule ratings_consistent_cong[OF assms(1)])
    show "artists st' = artists st" by (simp add: st')
    show "rated_scores st' aid = rated_scores st aid" for aid
      unfolding st' by (rule rated_scores_append_unrated[OF doc])
  qed
qed

lemma ratings_consistent_updateSessionStatus:
  assumes "store_ok st" and "ratings_consistent st"
    and "updateSessionStatus flt now st usr sid new_status = (r, st')"
  shows "ratings_consistent st'"
proof (cases "st' = st")
  case True
  then show ?thesis using assms(2) by simp
next
  case False
  then obtain s v where f: "findById_session st sid = Some s"
    and st': "st' = save_session now st (s\<lparr>status := v\<rparr>)"
    using assms(3)
    by (auto simp: updateSessionStatus_def Let_def split: option.splits if_splits)
  have s: "s_id s = sid \<and> s \<in> set (sessions st)"
    using f find_s_id[of sid "sessions st" s] by (simp add: findById_session_def)
  have dist: "distinct (map s_id (sessions st))" using assms(1) by (simp add: store_ok_def)
  let ?g = "\<lambda>x. if s_id x = s_id (s\<lparr>status := v\<rparr>) then s\<lparr>status := v, updatedAt := now\<rparr> else x"
  have same: "\<forall>x\<in>set (sessions st). artist (?g x) = artist x \<and> rating (?g x) = rating x"
  proof
    fix x assume x: "x \<in> set (sessions st)"
    show "artist (?g x) = artist x \<and> rating (?g x) = rating x"
    proof (cases "s_id x = s_id s")
      case True
      then have "x = s" using distinct_s_id_unique[OF dist _ x, of s] s by simp
      then show ?thesis by simp
    next
      case False
      then show ?thesis by simp
    qed
  qed
  have st'': "st' = st\<lparr>sessions := map ?g (sessions st)\<rparr>"
    by (simp add: st' save_session_def)
  show ?thesis
  proof (rule ratings_consistent_cong[OF assms(2)])
    show "artists st' = artists st" by (simp add: st'')
    show "rated_scores st' aid = rated_scores st aid" for aid
      unfolding st'' by (rule rated_scores_same_rating[OF same])
  qed
qed

text \<open>A rate request that fails after the session is saved does not keep it: the
  re-rating without a score of the section on failures leaves artist X with count 1 and
  no rated session.\<close>

lemma failed_rating_breaks_aggregate:
  "ratings_consistent rated_once
   \<and> fst (rateSession None 100 rated_once customer 1 \<lparr>req_score = JUndefined, req_review = None\<rparr>)
       = ServerError
   \<and> \<not> ratings_consistent
         (snd (rateSession None 100 rated_once customer 1
                 \<lparr>req_score = JUndefined, req_review = None\<rparr>))"
proof -
  have "ratings_consistent rated_once"
    by (simp add: ratings_consistent_def rated_scores_def mean_def round_1dp_def
        floor_eq_iff ex_defs)
  moreover have "\<not> ratings_consistent (rated_once\<lparr>sessions :=
          [lesson 1 20 1 t_1000 60 ''completed''
             (Some \<lparr>score = None, review = None, ratedAt = Some 100\<rparr>)\<lparr>updatedAt := 100\<rparr>,
           lesson 2 21 1 t_1100 30 ''completed'' None]\<rparr>)"
    by (simp add: ratings_consistent_def rated_scores_def mean_def round_1dp_def
        ex_defs)
  ultimately show ?thesis using rate_without_score_fails by simp
qed

text \<open>\<open>round_1dp\<close> gives a multiple of one tenth that is nearest to its argument.\<close>

lemma round_1dp_nearest:
  "\<bar>round_1dp x - x\<bar> \<le> 1 / 20 \<and> (\<exists>k::int. round_1dp x = of_int k / 10)"
proof -
  define k where "k = \<lfloor>x * 10 + 1 / 2\<rfloor>"
  have "of_int k \<le> x * 10 + 1 / 2" and "x * 10 + 1 / 2 < of_int k + 1"
    unfolding k_def by linarith+
  then have "of_int k / 10 - x \<le> 1 / 20" and "- (1 / 20) \<le> of_int k / 10 - x"
    by linarith+
  then have "\<bar>of_int k / 10 - x\<bar> \<le> 1 / 20" by linarith
  then show ?thesis unfolding round_1dp_def k_def[symmetric] by blast
qed

subsection \<open>Listing\<close>

lemma matches_no_filter:
  "matches \<lparr>f_artist = None, f_user = None, f_status = None, f_scheduledDate_gte = None\<rparr> s"
  by (simp add: matches_def)

lemma build_query_artist_without_profile:
  assumes "user_role usr = ''artist''" and "findOne_artist st (user_id usr) = None"
    and "q_status q = None" and "q_upcoming q \<noteq> Some ''true''"
  shows "build_query now st usr q
         = \<lparr>f_artist = None, f_user = None, f_status = None, f_scheduledDate_gte = None\<rparr>"
  using assms by (simp add: build_query_def)

text \<open>The filter of the other callers: a profile's sessions for an artist who has a
  profile, the caller's own bookings for every other role.\<close>

lemma build_query_with_profile:
  assumes "user_role usr = ''artist''" and "findOne_artist st (user_id usr) = Some a"
  shows "f_artist (build_query now st usr q) = Some (artist_id a)"
  using assms by (simp add: build_query_def Let_def split: option.splits)

lemma build_query_customer:
  assumes "user_role usr \<noteq> ''artist''"
  shows "f_user (build_query now st usr q) = Some (user_id usr)"
  using assms by (simp add: build_query_def Let_def split: option.splits)

text \<open>
  C9. The caller has role artist and no artist profile, and sends neither a status
  nor \<^verbatim>\<open>upcoming=true\<close>. The filter stays empty, so the answer is 200 with
  \<open>total\<close> the number of all sessions in the collection and \<open>data\<close> the requested page
  of all of them in date order: sessions of any customer with any artist. The first
  page is not empty as soon as one session exists. (Page 0 with a positive limit is a
  negative skip, which the database rejects.)
\<close>

theorem listSessions_artist_without_profile:
  assumes "user_role usr = ''artist''" and "findOne_artist st (user_id usr) = None"
    and "q_status q = None" and "q_upcoming q \<noteq> Some ''true''"
    and "page = (case q_page q of None \<Rightarrow> 1 | Some p \<Rightarrow> p)"
    and "limit = (case q_limit q of None \<Rightarrow> 10 | Some l \<Rightarrow> l)"
    and "0 < page \<or> limit = 0"
  shows "build_query now st usr q
           = \<lparr>f_artist = None, f_user = None, f_status = None, f_scheduledDate_gte = None\<rparr>
       \<and> (\<exists>pg. listSessions None now st usr q = (Success 200 [] pg, st)
             \<and> page_total pg = length (sessions st)
             \<and> page_data pg
                  = (if limit = 0
                     then drop ((page - 1) * limit) (sort_key scheduledDate (sessions st))
                     else take limit
                            (drop ((page - 1) * limit) (sort_key scheduledDate (sessions st))))
             \<and> (sessions st \<noteq> [] \<and> page = 1 \<longrightarrow> page_data pg \<noteq> []))"
proof -
  note bq = build_query_artist_without_profile[OF assms(1-4), of now]
  have f: "filter (matches \<lparr>f_artist = None, f_user = None, f_status = None,
                             f_scheduledDate_gte = None\<rparr>) (sessions st) = sessions st"
    by (simp add: matches_no_filter)
  let ?all = "sort_key scheduledDate (sessions st)"
  let ?data = "if limit = 0 then drop ((page - 1) * limit) ?all
               else take limit (drop ((page - 1) * limit) ?all)"
  have run: "listSessions None now st usr q
           = (Success 200 []
                \<lparr>page_count = length ?data,
                 page_total = length (sessions st),
                 page_totalPages = (if limit = 0 then None
                                    else Some ((length (sessions st) + limit - 1) div limit)),
                 page_currentPage = page,
                 page_data = ?data\<rparr>, st)"
    unfolding listSessions_def Let_def bq f assms(5)[symmetric] assms(6)[symmetric]
    using assms(7) by auto
  have ne: "?data \<noteq> []" if "sessions st \<noteq> []" and "page = 1"
  proof -
    from that(1) obtain x xs where "?all = x # xs"
      by (cases ?all) (auto dest: arg_cong[where f = length])
    then show ?thesis using that(2) by (cases limit) simp_all
  qed
  show ?thesis using bq run ne by simp
qed

text \<open>User 40 has role artist and no profile. With the default page and limit the
  answer lists the three sessions of customers 20 and 21 with artists 1 and 2.\<close>

theorem listSessions_artist_without_profile_witness:
  "user_role artist_without_profile = ''artist''
   \<and> findOne_artist completed_unrated (user_id artist_without_profile) = None
   \<and> map (\<lambda>s. (s_id s, user s, artist s))
        (page_data (case fst (listSessions None 0 completed_unrated artist_without_profile
                         \<lparr>q_status = None, q_upcoming = None, q_page = None, q_limit = None\<rparr>)
                    of Success c m pg \<Rightarrow> pg))
       = [(1, 20, 1), (3, 21, 2), (2, 21, 1)]
   \<and> map (\<lambda>s. (s_id s, user s, artist s)) (sessions completed_unrated)
       = [(1, 20, 1), (2, 21, 1), (3, 21, 2)]"
proof -
  let ?q = "\<lparr>q_status = None, q_upcoming = None, q_page = None, q_limit = None\<rparr>"
  have r: "user_role artist_without_profile = ''artist''"
    by (simp add: artist_without_profile_def)
  have n: "findOne_artist completed_unrated (user_id artist_without_profile) = None"
    by (simp add: findOne_artist_def ex_defs)
  obtain pg where run: "listSessions None 0 completed_unrated artist_without_profile ?q
                     = (Success 200 [] pg, completed_unrated)"
    and data: "page_data pg = take 10 (drop ((1 - 1) * 10)
                                  (sort_key scheduledDate (sessions completed_unrated)))"
    using listSessions_artist_without_profile[OF r n, of ?q 1 10 0] by auto
  have "map (\<lambda>s. (s_id s, user s, artist s)) (page_data pg) = [(1, 20, 1), (3, 21, 2), (2, 21, 1)]"
    unfolding data by (simp add: ex_defs)
  moreover have "map (\<lambda>s. (s_id s, user s, artist s)) (sessions completed_unrated)
       = [(1, 20, 1), (2, 21, 1), (3, 21, 2)]"
    by (simp add: ex_defs)
  ultimately show ?thesis using r n run by simp
qed

end
